theory Spec2Isabelle
  imports Main "HOL-Library.Sublist"
begin

section \<open>Strings\<close>

text \<open>
  A JavaScript string is modelled as a HOL \<open>string\<close> whose characters stand for the
  code units 0 to 255 (the Latin-1 range). On that range \<open>trim\<close>, \<open>toLowerCase\<close>,
  \<open>split\<close>, \<open>indexOf\<close>, \<open>substring\<close> and \<open>join\<close> are modelled exactly; code units
  above 255 are outside the model.
\<close>

definition isWhiteSpace :: "char \<Rightarrow> bool" where
  "isWhiteSpace c = ((of_char c :: nat) \<in> {9, 10, 11, 12, 13, 32, 160})"

definition trim :: "string \<Rightarrow> string" where
  "trim s = rev (dropWhile isWhiteSpace (rev (dropWhile isWhiteSpace s)))"

definition toLowerCaseChar :: "char \<Rightarrow> char" where
  "toLowerCaseChar c =
     (let n = (of_char c :: nat)
      in if (65 \<le> n \<and> n \<le> 90) \<or> (192 \<le> n \<and> n \<le> 222 \<and> n \<noteq> 215)
         then char_of (n + 32) else c)"

definition toLowerCase :: "string \<Rightarrow> string" where
  "toLowerCase s = map toLowerCaseChar s"

text \<open>\<open>s.split(c)\<close>: one piece more than there are separators; \<open>''''.split(c)\<close> is \<open>['''']\<close>.\<close>

fun splitOn :: "char \<Rightarrow> string \<Rightarrow> string list" where
  "splitOn c [] = [[]]"
| "splitOn c (x # xs) =
     (let r = splitOn c xs
      in if x = c then [] # r else (x # hd r) # tl r)"

text \<open>\<open>s.indexOf(c)\<close>: the first position of \<open>c\<close>, or \<open>-1\<close>.\<close>

fun indexOf :: "char \<Rightarrow> string \<Rightarrow> int" where
  "indexOf c [] = -1"
| "indexOf c (x # xs) =
     (if x = c then 0 else (let i = indexOf c xs in if i = -1 then -1 else i + 1))"

text \<open>\<open>s.substring(a, b)\<close> and \<open>s.substring(a)\<close> for \<open>0 \<le> a \<le> b\<close>, the only use in the source.\<close>

definition substring :: "string \<Rightarrow> int \<Rightarrow> int \<Rightarrow> string" where
  "substring s a b = take (nat b - nat a) (drop (nat a) s)"

definition substringFrom :: "string \<Rightarrow> int \<Rightarrow> string" where
  "substringFrom s a = drop (nat a) s"

text \<open>\<open>xs.join(sep)\<close>.\<close>

fun join :: "string \<Rightarrow> string list \<Rightarrow> string" where
  "join sep [] = []"
| "join sep [x] = x"
| "join sep (x # y # ys) = x @ sep @ join sep (y # ys)"

section \<open>Types (types.ts)\<close>

text \<open>
  A property read \<open>obj[key]\<close> on a plain object finds the object's own property of that
  name, or else the member of \<open>Object.prototype\<close> of that name. Such a member is no string:
  \<open>constructor\<close> is the function \<open>Object\<close>, \<open>__proto__\<close> reads as \<open>Object.prototype\<close>
  itself, the others are its methods. \<open>Inherited k\<close> stands for the member named \<open>k\<close>.
\<close>

datatype JsValue = JsString string | Inherited string

definition objectPrototypeMembers :: "string list" where
  "objectPrototypeMembers =
     [''constructor'', ''__defineGetter__'', ''__defineSetter__'', ''hasOwnProperty'',
      ''__lookupGetter__'', ''__lookupSetter__'', ''isPrototypeOf'', ''propertyIsEnumerable'',
      ''toString'', ''valueOf'', ''__proto__'', ''toLocaleString'']"

definition inherited :: "string \<Rightarrow> JsValue option" where
  "inherited key = (if key \<in> set objectPrototypeMembers then Some (Inherited key) else None)"

text \<open>
  The string a template literal makes of a value. A native function prints as V8 and
  JavaScriptCore print it.
\<close>

definition jsToString :: "JsValue \<Rightarrow> string" where
  "jsToString v =
     (case v of
        JsString s \<Rightarrow> s
      | Inherited k \<Rightarrow>
          if k = ''__proto__'' then ''[object Object]''
          else ''function '' @ (if k = ''constructor'' then ''Object'' else k) @
               ''() { [native code] }'')"

record IParsedRecord =
  id' :: string
  table :: string

text \<open>
  \<open>iconUrl\<close> is declared a string; \<open>processLookupResults\<close> fills it from a property read on
  the icon cache, so it holds whatever that read finds.
\<close>

record ILookupRecord = IParsedRecord +
  name :: string
  iconUrl :: "JsValue option"
  isLoading :: "bool option"

section \<open>Codec (utils/dataUtils.ts)\<close>

definition isHexDigit :: "char \<Rightarrow> bool" where
  "isHexDigit c =
     (let n = (of_char c :: nat)
      in (48 \<le> n \<and> n \<le> 57) \<or> (97 \<le> n \<and> n \<le> 102) \<or> (65 \<le> n \<and> n \<le> 70))"

text \<open>Groups of hex digits of the given lengths, separated by single hyphens, and nothing else.\<close>

fun hexGroups :: "nat list \<Rightarrow> string \<Rightarrow> bool" where
  "hexGroups [] s = False"
| "hexGroups [n] s = (length s = n \<and> list_all isHexDigit s)"
| "hexGroups (n # m # ns) s =
     (n \<le> length s \<and> list_all isHexDigit (take n s) \<and>
      (case drop n s of [] \<Rightarrow> False | c # r \<Rightarrow> c = CHR ''-'' \<and> hexGroups (m # ns) r))"

text \<open>The regular expression of \<open>isValidGuid\<close>: 8-4-4-4-12 hex digits, anchored at both ends.\<close>

definition guidRegex :: "string \<Rightarrow> bool" where
  "guidRegex s = hexGroups [8, 4, 4, 4, 12] s"

text \<open>\<open>value.replace(/[{}]/g, '''')\<close>: every brace is removed, wherever it stands.\<close>

definition stripBraces :: "string \<Rightarrow> string" where
  "stripBraces s = filter (\<lambda>c. c \<noteq> CHR ''{'' \<and> c \<noteq> CHR ''}'') s"

definition isValidGuid :: "string \<Rightarrow> bool" where
  "isValidGuid v = (if v = [] then False else guidRegex (stripBraces v))"

definition normalizeGuid :: "string \<Rightarrow> string" where
  "normalizeGuid guid = (if guid = [] then [] else toLowerCase (stripBraces guid))"

text \<open>The \<open>for\<close> loop of \<open>parseBoundValue\<close>; \<open>records\<close> is the array being pushed to.\<close>

fun parseEntries :: "string list \<Rightarrow> IParsedRecord list \<Rightarrow> IParsedRecord list" where
  "parseEntries [] records = records"
| "parseEntries (entry # rest) records =
     (let colonIndex = indexOf CHR '':'' entry
      in if colonIndex = -1 then parseEntries rest records
         else
           (let i = trim (substring entry 0 colonIndex);
                t = trim (substringFrom entry (colonIndex + 1))
            in if isValidGuid i \<and> length t > 0
               then parseEntries rest (records @ [\<lparr>id' = normalizeGuid i, table = toLowerCase t\<rparr>])
               else parseEntries rest records))"

text \<open>The argument is \<open>string | null | undefined\<close>; \<open>None\<close> stands for null and undefined.\<close>

definition parseBoundValue :: "string option \<Rightarrow> IParsedRecord list" where
  "parseBoundValue boundValue =
     (case boundValue of
        None \<Rightarrow> []
      | Some v \<Rightarrow>
          if v = [] \<or> trim v = [] then []
          else parseEntries (filter (\<lambda>entry. trim entry \<noteq> []) (splitOn CHR '';'' v)) [])"

definition serializeToBoundValue :: "ILookupRecord list \<Rightarrow> string" where
  "serializeToBoundValue records =
     (if length records = 0 then []
      else join '';'' (map (\<lambda>record. normalizeGuid (id' record) @ '':'' @ toLowerCase (table record)) records))"

definition isRecordSelected :: "string \<Rightarrow> ILookupRecord list \<Rightarrow> bool" where
  "isRecordSelected recordId selectedRecords =
     (let normalizedId = normalizeGuid recordId
      in list_ex (\<lambda>record. normalizeGuid (id' record) = normalizedId) selectedRecords)"

definition removeRecordById :: "string \<Rightarrow> ILookupRecord list \<Rightarrow> ILookupRecord list" where
  "removeRecordById recordId selectedRecords =
     (let normalizedId = normalizeGuid recordId
      in filter (\<lambda>record. normalizeGuid (id' record) \<noteq> normalizedId) selectedRecords)"


definition parseLookupTables :: "string option \<Rightarrow> string list" where
  "parseLookupTables tablesString =
     (case tablesString of
        None \<Rightarrow> []
      | Some v \<Rightarrow>
          if v = [] \<or> trim v = [] then []
          else filter (\<lambda>t. length t > 0) (map (\<lambda>t. toLowerCase (trim t)) (splitOn CHR '','' v)))"

text \<open>\<open>COMMON_PRIMARY_NAME_FIELDS\<close> of types.ts.\<close>

definition COMMON_PRIMARY_NAME_FIELDS :: "(string \<times> string) list" where
  "COMMON_PRIMARY_NAME_FIELDS =
     [(''contact'', ''fullname''), (''account'', ''name''), (''lead'', ''fullname''),
      (''opportunity'', ''name''), (''systemuser'', ''fullname''), (''team'', ''name''),
      (''businessunit'', ''name''), (''task'', ''subject''), (''phonecall'', ''subject''),
      (''email'', ''subject''), (''appointment'', ''subject''), (''letter'', ''subject''),
      (''fax'', ''subject''), (''activitypointer'', ''subject''), (''annotation'', ''subject''),
      (''incident'', ''title''), (''knowledgearticle'', ''title''), (''queue'', ''name''),
      (''product'', ''name''), (''pricelevel'', ''name''), (''campaign'', ''name''),
      (''list'', ''listname''), (''goal'', ''title''), (''transactioncurrency'', ''currencyname'')]"

text \<open>
  \<open>getPrimaryNameField\<close> reads \<open>COMMON_PRIMARY_NAME_FIELDS[lowerTable]\<close> and returns what it
  finds when that is truthy: a field name of the table above, or, for the table names
  \<open>constructor\<close> and \<open>__proto__\<close>, the inherited member.
\<close>

definition getPrimaryNameField :: "string \<Rightarrow> JsValue" where
  "getPrimaryNameField tableName =
     (let lowerTable = toLowerCase tableName
      in case map_of COMMON_PRIMARY_NAME_FIELDS lowerTable of
           Some f \<Rightarrow> JsString f
         | None \<Rightarrow>
             (case inherited lowerTable of
                Some v \<Rightarrow> v
              | None \<Rightarrow> JsString ''name''))"

section \<open>Record resolver (utils/webApiUtils.ts)\<close>

text \<open>
  What \<open>context.webAPI.retrieveRecord\<close> settles with: an entity (its defined string
  fields), a falsy value, or a rejection. A rejection carries any thrown value: an object or
  a value that is no object. Of an object the code reads \<open>code\<close>, \<open>errorCode\<close> and
  \<open>message\<close>; the type guard \<open>isWebApiError\<close> declares them number or string, and string,
  but checks none of it. \<open>None\<close> is a field that is null or undefined. A code is a whole
  number, a string or another value. A message is a string, an array (with or without the
  element \<open>'does not exist'\<close>), or another value, one that has no method \<open>includes\<close> and no
  method \<open>toLowerCase\<close> (a number, a boolean, a plain object).
\<close>

datatype ErrorCode = NumCode int | StrCode string | OtherCode

datatype Message = StringMessage string | ArrayMessage bool | OtherMessage

datatype Thrown = ErrorObject "ErrorCode option" "ErrorCode option" "Message option" | NonObject

datatype 'a Promise = Fulfilled 'a | Rejected Thrown

type_synonym Entity = "(string \<times> string) list"

type_synonym WebAPI = "string \<Rightarrow> string \<Rightarrow> string \<Rightarrow> Entity option Promise"

text \<open>The first defined value of a \<open>??\<close> chain.\<close>

fun coalesce :: "'a option list \<Rightarrow> 'a \<Rightarrow> 'a" where
  "coalesce [] d = d"
| "coalesce (None # xs) d = coalesce xs d"
| "coalesce (Some x # xs) d = x"

text \<open>
  \<open>errorMessage.includes('does not exist')\<close> with \<open>errorMessage = error.message ?? ''\<close>:
  the answer, or \<open>None\<close> when the call throws a \<open>TypeError\<close> because the value has no such
  method.
\<close>

definition includesDoesNotExist :: "Message option \<Rightarrow> bool option" where
  "includesDoesNotExist message =
     (case message of
        None \<Rightarrow> Some False
      | Some (StringMessage m) \<Rightarrow> Some (sublist ''does not exist'' m)
      | Some (ArrayMessage b) \<Rightarrow> Some b
      | Some OtherMessage \<Rightarrow> None)"

text \<open>
  The test of the \<open>catch\<close> block of \<open>retrieveRecord\<close>: whether the error is one of the silent
  classes, or \<open>None\<close> when the test itself throws. The operands of \<open>||\<close> are evaluated from
  the left: the codes 404 and 0x80040217 are settled before the message is searched, the codes
  403 and 0x80040220 after it.
\<close>

definition isSilentError :: "Thrown \<Rightarrow> bool option" where
  "isSilentError e =
     (case e of
        NonObject \<Rightarrow> Some False
      | ErrorObject code errorCode message \<Rightarrow>
          (let ec = (case code of Some c \<Rightarrow> Some c | None \<Rightarrow> errorCode)
           in if ec = Some (NumCode 404) \<or> ec = Some (StrCode ''0x80040217'') then Some True
              else
                (case includesDoesNotExist message of
                   None \<Rightarrow> None
                 | Some True \<Rightarrow> Some True
                 | Some False \<Rightarrow>
                     Some (ec = Some (NumCode 403) \<or> ec = Some (StrCode ''0x80040220'')))))"

text \<open>The \<open>TypeError\<close> that the search of a message without the method \<open>includes\<close> throws.\<close>

definition includesTypeError :: Thrown where
  "includesTypeError =
     ErrorObject None None (Some (StringMessage ''errorMessage.includes is not a function''))"

text \<open>
  The result of \<open>retrieveRecord\<close>: how its promise settles, and whether \<open>console.error\<close>
  was called on the way. An error thrown inside the \<open>catch\<close> block rejects the promise.
\<close>

record RetrieveOutcome =
  settled :: "ILookupRecord option Promise"
  consoleError :: bool

definition retrieveRecord :: "WebAPI \<Rightarrow> string \<Rightarrow> string \<Rightarrow> RetrieveOutcome" where
  "retrieveRecord webAPI tableName recordId =
     (let primaryNameField = getPrimaryNameField tableName;
          normalizedId = normalizeGuid recordId
      in case webAPI tableName normalizedId (''?$select='' @ jsToString primaryNameField) of
           Fulfilled (Some resultObj) \<Rightarrow>
             \<lparr>settled = Fulfilled (Some
                \<lparr>id' = normalizedId, table = toLowerCase tableName,
                 name = coalesce [map_of resultObj (jsToString primaryNameField),
                                  map_of resultObj ''name'', map_of resultObj ''fullname'',
                                  map_of resultObj ''subject'', map_of resultObj ''title'']
                          ''Unnamed Record'',
                 iconUrl = None, isLoading = None\<rparr>),
              consoleError = False\<rparr>
         | Fulfilled None \<Rightarrow> \<lparr>settled = Fulfilled None, consoleError = False\<rparr>
         | Rejected e \<Rightarrow>
             (case isSilentError e of
                Some True \<Rightarrow> \<lparr>settled = Fulfilled None, consoleError = False\<rparr>
              | Some False \<Rightarrow> \<lparr>settled = Fulfilled None, consoleError = True\<rparr>
              | None \<Rightarrow> \<lparr>settled = Rejected includesTypeError, consoleError = False\<rparr>))"

record IRecordRetrievalResult =
  validRecords :: "ILookupRecord list"
  deletedRecordIds :: "string list"
  hasDeletedRecords :: bool

text \<open>The \<open>for\<close> loop of \<open>retrieveAllRecords\<close> over the settled retrievals.\<close>

fun partitionResults ::
  "(IParsedRecord \<times> ILookupRecord option) list \<Rightarrow> ILookupRecord list \<Rightarrow> string list \<Rightarrow>
   ILookupRecord list \<times> string list" where
  "partitionResults [] valid deleted = (valid, deleted)"
| "partitionResults ((parsed, Some r) # rest) valid deleted =
     partitionResults rest (valid @ [r]) deleted"
| "partitionResults ((parsed, None) # rest) valid deleted =
     partitionResults rest valid (deleted @ [id' parsed])"

text \<open>
  \<open>Promise.all\<close>: the values in order, or a rejection. (It rejects with the rejection that
  comes first in time; every rejection of \<open>retrieveRecord\<close> is the same \<open>TypeError\<close>.)
\<close>

fun promiseAll :: "'a Promise list \<Rightarrow> 'a list Promise" where
  "promiseAll [] = Fulfilled []"
| "promiseAll (Rejected e # ps) = Rejected e"
| "promiseAll (Fulfilled x # ps) =
     (case promiseAll ps of Fulfilled xs \<Rightarrow> Fulfilled (x # xs) | Rejected e \<Rightarrow> Rejected e)"

definition retrieveAllRecords :: "WebAPI \<Rightarrow> IParsedRecord list \<Rightarrow> IRecordRetrievalResult Promise" where
  "retrieveAllRecords webAPI parsedRecords =
     (if length parsedRecords = 0
      then Fulfilled \<lparr>validRecords = [], deletedRecordIds = [], hasDeletedRecords = False\<rparr>
      else
        (case promiseAll (map (\<lambda>parsed. settled (retrieveRecord webAPI (table parsed) (id' parsed)))
                              parsedRecords) of
           Rejected e \<Rightarrow> Rejected e
         | Fulfilled records \<Rightarrow>
             (let (valid, deleted) = partitionResults (zip parsedRecords records) [] []
              in Fulfilled \<lparr>validRecords = valid, deletedRecordIds = deleted,
                             hasDeletedRecords = (length deleted > 0)\<rparr>)))"

section \<open>The control (index.ts)\<close>

text \<open>The parameters of the framework context that the control reads; \<open>None\<close> is a null raw value.\<close>

record Context =
  boundField :: "string option"
  allowMultiSelect :: "bool option"
  maxSelections :: "int option"
  lookupTables :: "string option"

text \<open>\<open>ComponentFramework.LookupValue\<close>, an entry of the picker's result.\<close>

record LookupValue =
  lookupId :: string
  lookupName :: "string option"
  entityType :: string

text \<open>
  The icon cache is a plain object: its own properties (a table name with its icon URL or
  null), and whether its prototype is null. \<open>getTableIconsForTables\<close> fills it by
  assignment, and assigning null to \<open>__proto__\<close> sets the prototype to null.
\<close>

record ITableIconCache =
  ownProperties :: "(string \<times> string option) list"
  prototypeNull :: bool

definition emptyObject :: ITableIconCache where
  "emptyObject = \<lparr>ownProperties = [], prototypeNull = False\<rparr>"

text \<open>
  The fields of the class \<open>PseudoLookup\<close>. \<open>stateUpdater\<close> tells whether a callback is
  registered; \<open>updaterCalls\<close> lists the versions it has been called with and
  \<open>outputChanged\<close> counts the calls of \<open>notifyOutputChanged\<close>.
\<close>

record PseudoLookup =
  context' :: Context
  selectedRecords :: "ILookupRecord list"
  errorMessage :: "string option"
  boundFieldValue :: string
  recordNamesValue :: string
  isInitialized :: bool
  lastBoundValue :: "string option"
  isLoadingInProgress :: bool
  tableIconCache :: ITableIconCache
  iconCacheLoaded :: bool
  isNavigating :: bool
  stateVersion :: int
  stateUpdater :: bool
  updaterCalls :: "int list"
  outputChanged :: nat

text \<open>The field initialisers of the class, followed by \<open>init\<close>, which stores the context.\<close>

definition init :: "Context \<Rightarrow> PseudoLookup" where
  "init ctx =
     \<lparr>context' = ctx, selectedRecords = [], errorMessage = None, boundFieldValue = [],
      recordNamesValue = [], isInitialized = False, lastBoundValue = None,
      isLoadingInProgress = False, tableIconCache = emptyObject, iconCacheLoaded = False,
      isNavigating = False, stateVersion = 0, stateUpdater = False, updaterCalls = [],
      outputChanged = 0\<rparr>"

definition triggerRerender :: "PseudoLookup \<Rightarrow> PseudoLookup" where
  "triggerRerender s =
     (let s1 = s\<lparr>stateVersion := stateVersion s + 1\<rparr>
      in if stateUpdater s1 then s1\<lparr>updaterCalls := updaterCalls s1 @ [stateVersion s1]\<rparr> else s1)"

definition setStateUpdater :: "PseudoLookup \<Rightarrow> PseudoLookup" where
  "setStateUpdater s = s\<lparr>stateUpdater := True\<rparr>"

definition notifyOutputChanged :: "PseudoLookup \<Rightarrow> PseudoLookup" where
  "notifyOutputChanged s = s\<lparr>outputChanged := outputChanged s + 1\<rparr>"

definition serializeRecordNames :: "PseudoLookup \<Rightarrow> string" where
  "serializeRecordNames s =
     (if length (selectedRecords s) = 0 then []
      else join '';'' (map name (filter (\<lambda>r. isLoading r \<noteq> Some True) (selectedRecords s))))"

text \<open>The raw value of the bound field, with the empty string for null.\<close>

definition boundFieldRaw :: "Context \<Rightarrow> string" where
  "boundFieldRaw ctx = (case boundField ctx of Some v \<Rightarrow> v | None \<Rightarrow> [])"

text \<open>
  \<open>loadInitialData\<close> is an async function with one \<open>await\<close>. It is modelled in two parts:
  \<open>loadInitialData_start\<close> runs up to the \<open>await\<close> (or to an earlier \<open>return\<close>) and
  yields the suspended call, \<open>loadInitialData_resume\<close> runs from the \<open>await\<close> to the end.
  The \<open>finally\<close> block runs on every way out of the \<open>try\<close>, the early \<open>return\<close>s
  included.
\<close>

record Pending =
  loadingValue :: string
  parsedRecords :: "IParsedRecord list"

definition loadInitialData_finally :: "PseudoLookup \<Rightarrow> PseudoLookup" where
  "loadInitialData_finally s = triggerRerender (s\<lparr>isLoadingInProgress := False\<rparr>)"

definition placeholder :: "IParsedRecord \<Rightarrow> ILookupRecord" where
  "placeholder r =
     \<lparr>id' = id' r, table = table r, name = ''Loading...'', iconUrl = None, isLoading = Some True\<rparr>"

definition loadInitialData_start :: "Context \<Rightarrow> PseudoLookup \<Rightarrow> PseudoLookup \<times> Pending option" where
  "loadInitialData_start ctx s =
     (let boundValue = boundFieldRaw ctx
      in if isLoadingInProgress s then (s, None)
         else if boundValue = [] \<or> trim boundValue = [] then
           (triggerRerender
              (s\<lparr>selectedRecords := [], recordNamesValue := [], boundFieldValue := [],
                 isInitialized := True, lastBoundValue := Some []\<rparr>), None)
         else if Some boundValue = lastBoundValue s \<and> isInitialized s then (s, None)
         else
           (let s1 = s\<lparr>lastBoundValue := Some boundValue, isLoadingInProgress := True,
                       errorMessage := None\<rparr>;
                parsed = parseBoundValue (Some boundValue)
            in if length parsed = 0 then
                 (loadInitialData_finally
                    (triggerRerender
                       (s1\<lparr>selectedRecords := [], recordNamesValue := [], boundFieldValue := [],
                           isLoadingInProgress := False, isInitialized := True\<rparr>)), None)
               else
                 (triggerRerender
                    (s1\<lparr>selectedRecords := map placeholder parsed, isInitialized := True\<rparr>),
                  Some \<lparr>loadingValue = boundValue, parsedRecords = parsed\<rparr>)))"

definition loadInitialData_resume ::
  "Pending \<Rightarrow> IRecordRetrievalResult Promise \<Rightarrow> PseudoLookup \<Rightarrow> PseudoLookup \<times> Pending option" where
  "loadInitialData_resume p outcome s =
     (case outcome of
        Rejected e \<Rightarrow>
          (loadInitialData_finally
             (s\<lparr>errorMessage := Some ''Error loading records. Please refresh.'',
                selectedRecords := [], recordNamesValue := []\<rparr>), None)
      | Fulfilled result \<Rightarrow>
          (let currentBoundValue = boundFieldRaw (context' s)
           in if currentBoundValue \<noteq> loadingValue p then
                (let (s1, q) = loadInitialData_start (context' s) (s\<lparr>isLoadingInProgress := False\<rparr>)
                 in (loadInitialData_finally s1, q))
              else
                (let s1 = s\<lparr>selectedRecords := validRecords result\<rparr>;
                     s2 = s1\<lparr>recordNamesValue := serializeRecordNames s1\<rparr>;
                     s3 = (if hasDeletedRecords result then
                             (let s4 = s2\<lparr>boundFieldValue := serializeToBoundValue (selectedRecords s2)\<rparr>
                              in notifyOutputChanged (s4\<lparr>lastBoundValue := Some (boundFieldValue s4)\<rparr>))
                           else s2)
                 in (loadInitialData_finally s3, None))))"

text \<open>
  \<open>updateView\<close>, as far as the state goes: it stores the context and may start a load.
  (It also starts \<open>loadTableIcons\<close>, whose completion is \<open>iconsLoaded\<close> below.)
\<close>

definition updateView :: "Context \<Rightarrow> PseudoLookup \<Rightarrow> PseudoLookup \<times> Pending option" where
  "updateView ctx s =
     (let s1 = s\<lparr>context' := ctx\<rparr>;
          currentBoundValue = boundFieldRaw ctx;
          valueChanged = (Some currentBoundValue \<noteq> lastBoundValue s1)
      in if \<not> isInitialized s1 \<or> (valueChanged \<and> \<not> isLoadingInProgress s1)
         then loadInitialData_start ctx s1
         else (s1, None))"

text \<open>The continuation of \<open>loadTableIcons\<close> after its \<open>await\<close> succeeded.\<close>

definition iconsLoaded :: "ITableIconCache \<Rightarrow> PseudoLookup \<Rightarrow> PseudoLookup" where
  "iconsLoaded cache s = triggerRerender (s\<lparr>tableIconCache := cache, iconCacheLoaded := True\<rparr>)"

text \<open>
  How a template literal prints an integer (the decimal digits, a minus sign before a
  negative one); numbers from 10^21 on, which JavaScript prints with an exponent, are outside
  the model.
\<close>

function digitsOf :: "nat \<Rightarrow> string" where
  "digitsOf n =
     (let d = ''0123456789'' ! (n mod 10)
      in if n div 10 = 0 then [d] else digitsOf (n div 10) @ [d])"
  by pat_completeness auto
termination
  by (relation "measure (\<lambda>n. n)") auto

declare digitsOf.simps [simp del]

definition numberToString :: "int \<Rightarrow> string" where
  "numberToString i = (if 0 \<le> i then digitsOf (nat i) else CHR ''-'' # digitsOf (nat (- i)))"

text \<open>
  \<open>this.tableIconCache[key] ?? undefined\<close>: the own property of that name, undefined when
  it is null; without an own property, the member of \<open>Object.prototype\<close> of that name
  unless the prototype is null.
\<close>

definition iconFor :: "ITableIconCache \<Rightarrow> string \<Rightarrow> JsValue option" where
  "iconFor cache key =
     (case map_of (ownProperties cache) key of
        Some (Some u) \<Rightarrow> Some (JsString u)
      | Some None \<Rightarrow> None
      | None \<Rightarrow> if prototypeNull cache then None else inherited key)"

text \<open>The conversion of one picker result in \<open>processLookupResults\<close>.\<close>

definition convertResult :: "ITableIconCache \<Rightarrow> LookupValue \<Rightarrow> ILookupRecord" where
  "convertResult cache result =
     \<lparr>id' = normalizeGuid (lookupId result), table = toLowerCase (entityType result),
      name = (case lookupName result of Some n \<Rightarrow> n | None \<Rightarrow> ''Unnamed Record''),
      iconUrl = iconFor cache (toLowerCase (entityType result)), isLoading = None\<rparr>"

definition tooManyMessage :: "int \<Rightarrow> int \<Rightarrow> string" where
  "tooManyMessage m excessCount =
     ''Too many selections. Only the first '' @ numberToString m @ '' record'' @
     (if m > 1 then ''s were'' else '' was'') @ '' retained ('' @ numberToString excessCount @
     '' removed).''"

definition processLookupResults :: "LookupValue list \<Rightarrow> bool \<Rightarrow> PseudoLookup \<Rightarrow> PseudoLookup" where
  "processLookupResults results multi s =
     (let newRecords = map (convertResult (tableIconCache s)) results;
          s1 =
            (if multi then
               (let existingIds = set (map (\<lambda>r. normalizeGuid (id' r)) (selectedRecords s));
                    uniqueNewRecords = filter (\<lambda>r. normalizeGuid (id' r) \<notin> existingIds) newRecords;
                    combinedRecords = selectedRecords s @ uniqueNewRecords
                in case maxSelections (context' s) of
                     None \<Rightarrow> s\<lparr>selectedRecords := combinedRecords\<rparr>
                   | Some m \<Rightarrow>
                       if m \<noteq> 0 \<and> m > 0 \<and> int (length combinedRecords) > m then
                         (let excessCount = int (length combinedRecords) - m
                          in s\<lparr>errorMessage := Some (tooManyMessage m excessCount),
                                selectedRecords := take (nat m) combinedRecords\<rparr>)
                       else s\<lparr>selectedRecords := combinedRecords\<rparr>)
             else s\<lparr>selectedRecords := take 1 newRecords\<rparr>);
          s2 = s1\<lparr>boundFieldValue := serializeToBoundValue (selectedRecords s1)\<rparr>;
          s3 = s2\<lparr>recordNamesValue := serializeRecordNames s2\<rparr>;
          s4 = s3\<lparr>lastBoundValue := Some (boundFieldValue s3)\<rparr>
      in triggerRerender (notifyOutputChanged s4))"

definition handleRemoveRecord :: "string \<Rightarrow> PseudoLookup \<Rightarrow> PseudoLookup" where
  "handleRemoveRecord recordId s =
     (let s1 = s\<lparr>selectedRecords := removeRecordById recordId (selectedRecords s)\<rparr>;
          s2 = s1\<lparr>boundFieldValue := serializeToBoundValue (selectedRecords s1)\<rparr>;
          s3 = s2\<lparr>recordNamesValue := serializeRecordNames s2\<rparr>;
          s4 = s3\<lparr>lastBoundValue := Some (boundFieldValue s3)\<rparr>;
          s5 = s4\<lparr>errorMessage := None\<rparr>
      in triggerRerender (notifyOutputChanged s5))"

text \<open>\<open>destroy\<close> resets the fields of the control; the version counter is not among them.\<close>

definition destroy :: "PseudoLookup \<Rightarrow> PseudoLookup" where
  "destroy s =
     s\<lparr>selectedRecords := [], isLoadingInProgress := False, errorMessage := None,
       boundFieldValue := [], recordNamesValue := [], isInitialized := False,
       lastBoundValue := None, isNavigating := False, tableIconCache := emptyObject,
       iconCacheLoaded := False\<rparr>"

text \<open>
  \<open>handleLookupClick\<close> up to its \<open>await\<close>: the new state, and the value of
  \<open>allowMultiSelect\<close> it goes on with when the picker has been opened (\<open>None\<close> when it
  returned before).
\<close>

definition maxReachedMessage :: "int \<Rightarrow> string" where
  "maxReachedMessage m =
     ''Maximum of '' @ numberToString m @ '' selection'' @ (if m > 1 then ''s'' else []) @
     '' reached''"

definition handleLookupClick_start :: "PseudoLookup \<Rightarrow> PseudoLookup \<times> bool option" where
  "handleLookupClick_start s =
     (if isLoadingInProgress s then (s, None)
      else
        (let multi = (allowMultiSelect (context' s) = Some True);
             atMax = (case maxSelections (context' s) of
                        None \<Rightarrow> None
                      | Some m \<Rightarrow>
                          if multi \<and> m \<noteq> 0 \<and> m > 0 \<and> int (length (selectedRecords s)) \<ge> m
                          then Some m else None)
         in case atMax of
              Some m \<Rightarrow> (triggerRerender (s\<lparr>errorMessage := Some (maxReachedMessage m)\<rparr>), None)
            | None \<Rightarrow>
                if length (parseLookupTables (lookupTables (context' s))) = 0
                then (triggerRerender (s\<lparr>errorMessage := Some ''No lookup tables configured''\<rparr>), None)
                else (s, Some multi)))"

text \<open>
  \<open>isUserCancelledError\<close>: the answer, or \<open>None\<close> when \<open>err.message?.toLowerCase()\<close>
  throws a \<open>TypeError\<close> because the message is neither nullish nor a string.
\<close>

definition isUserCancelledError :: "Thrown \<Rightarrow> bool option" where
  "isUserCancelledError e =
     (case e of
        NonObject \<Rightarrow> Some False
      | ErrorObject code errorCode message \<Rightarrow>
          if code = Some (NumCode 1) \<or> code = Some (NumCode (- 2147020463)) then Some True
          else
            (case message of
               None \<Rightarrow> Some False
             | Some (StringMessage m) \<Rightarrow> Some (sublist ''cancel'' (toLowerCase m))
             | Some (ArrayMessage b) \<Rightarrow> None
             | Some OtherMessage \<Rightarrow> None))"

text \<open>
  \<open>handleLookupClick\<close> from its \<open>await\<close> on, with how \<open>openLookupDialog\<close> settled. When
  \<open>isUserCancelledError\<close> throws inside the \<open>catch\<close> block, the call ends there.
\<close>

definition handleLookupClick_resume :: "bool \<Rightarrow> LookupValue list Promise \<Rightarrow> PseudoLookup \<Rightarrow> PseudoLookup" where
  "handleLookupClick_resume multi outcome s =
     (case outcome of
        Fulfilled results \<Rightarrow> if length results > 0 then processLookupResults results multi s else s
      | Rejected e \<Rightarrow>
          (case isUserCancelledError e of
             Some False \<Rightarrow> triggerRerender (s\<lparr>errorMessage := Some ''Error opening lookup dialog''\<rparr>)
           | Some True \<Rightarrow> s
           | None \<Rightarrow> s))"

section \<open>The control with its pending calls\<close>

text \<open>
  The control runs on one thread; between two events nothing happens to its state. An event
  is a call of \<open>updateView\<close> by the framework with the context of the moment (the only
  way the control learns of a new external value), the completion of one of the loads that
  are waiting at their \<open>await\<close>, the completion of the icon load, a click on the lookup
  button, the answer of one of the open pickers, or a click on the remove button of a record.
  The system holds the loads that are waiting, each with its value and its parsed records, and
  the calls of \<open>handleLookupClick\<close> that are waiting for their picker, each with its value of
  \<open>allowMultiSelect\<close>. The store is a function: a request for the same record gets the same
  answer.
\<close>

record System =
  control :: PseudoLookup
  inflight :: "Pending list"
  dialogs :: "bool list"

datatype Event =
    Observe Context
  | Settle nat
  | Icons ITableIconCache
  | Click
  | Picked nat "LookupValue list Promise"
  | Remove string

definition addPending :: "Pending option \<Rightarrow> Pending list \<Rightarrow> Pending list" where
  "addPending q ps = (case q of None \<Rightarrow> ps | Some p \<Rightarrow> ps @ [p])"

definition addDialog :: "bool option \<Rightarrow> bool list \<Rightarrow> bool list" where
  "addDialog q ds = (case q of None \<Rightarrow> ds | Some m \<Rightarrow> ds @ [m])"

fun step :: "WebAPI \<Rightarrow> Event \<Rightarrow> System \<Rightarrow> System" where
  "step api (Observe ctx) sys =
     (let (s', q) = updateView ctx (control sys)
      in sys\<lparr>control := s', inflight := addPending q (inflight sys)\<rparr>)"
| "step api (Settle k) sys =
     (if k < length (inflight sys) then
        (let p = inflight sys ! k;
             rest = take k (inflight sys) @ drop (Suc k) (inflight sys);
             (s', q) = loadInitialData_resume p (retrieveAllRecords api (parsedRecords p)) (control sys)
         in sys\<lparr>control := s', inflight := addPending q rest\<rparr>)
      else sys)"
| "step api (Icons cache) sys = sys\<lparr>control := iconsLoaded cache (control sys)\<rparr>"
| "step api Click sys =
     (let (s', q) = handleLookupClick_start (control sys)
      in sys\<lparr>control := s', dialogs := addDialog q (dialogs sys)\<rparr>)"
| "step api (Picked k outcome) sys =
     (if k < length (dialogs sys) then
        sys\<lparr>control := handleLookupClick_resume (dialogs sys ! k) outcome (control sys),
            dialogs := take k (dialogs sys) @ drop (Suc k) (dialogs sys)\<rparr>
      else sys)"
| "step api (Remove recordId) sys = sys\<lparr>control := handleRemoveRecord recordId (control sys)\<rparr>"

definition run :: "WebAPI \<Rightarrow> Event list \<Rightarrow> System \<Rightarrow> System" where
  "run api evs sys = foldl (\<lambda>s e. step api e s) sys evs"

definition initial :: "Context \<Rightarrow> System" where
  "initial ctx = \<lparr>control = init ctx, inflight = [], dialogs = []\<rparr>"

section \<open>Properties stated over the model\<close>

text \<open>
  What \<open>processLookupResults\<close> is to build in multi-select mode before any truncation: the
  current selection, then the converted results whose identifier is not selected yet.
\<close>

definition appendUnique :: "PseudoLookup \<Rightarrow> LookupValue list \<Rightarrow> ILookupRecord list" where
  "appendUnique s results =
     selectedRecords s @
     filter (\<lambda>r. \<not> isRecordSelected (id' r) (selectedRecords s))
       (map (convertResult (tableIconCache s)) results)"

text \<open>
  The number a decimal numeral stands for: a string of digits, not empty and without a
  leading zero (the numeral 0 apart).
\<close>

definition isDigit :: "char \<Rightarrow> bool" where
  "isDigit c = (48 \<le> (of_char c :: nat) \<and> (of_char c :: nat) \<le> 57)"

definition readDecimal :: "string \<Rightarrow> nat option" where
  "readDecimal ds =
     (if ds = [] \<or> \<not> list_all isDigit ds \<or> (length ds > 1 \<and> hd ds = CHR ''0'') then None
      else Some (foldl (\<lambda>a c. 10 * a + (of_char c - 48)) 0 ds))"

text \<open>The identifiers of the entries that are not placeholders are pairwise distinct.\<close>

definition uniqueIds :: "ILookupRecord list \<Rightarrow> bool" where
  "uniqueIds sel =
     distinct (map (\<lambda>r. normalizeGuid (id' r)) (filter (\<lambda>r. isLoading r \<noteq> Some True) sel))"

section \<open>The codec as the specification words it\<close>

text \<open>
  \<open>parse\<close> as the specification states it: split on \<open>;\<close>, discard the empty segments,
  split each segment at its first \<open>:\<close> into identifier and type, drop the segment when the
  identifier fails the grammar or the type is empty, and emit the normalized identifier with
  the lowercased type.
\<close>

definition segment_asStated :: "string \<Rightarrow> IParsedRecord option" where
  "segment_asStated seg =
     (let i = takeWhile (\<lambda>c. c \<noteq> CHR '':'') seg;
          t = drop (length i + 1) seg
      in if isValidGuid i \<and> t \<noteq> []
         then Some \<lparr>id' = toLowerCase (stripBraces i), table = toLowerCase t\<rparr>
         else None)"

definition parse_asStated :: "string \<Rightarrow> IParsedRecord list" where
  "parse_asStated raw =
     List.map_filter segment_asStated (filter (\<lambda>seg. seg \<noteq> []) (splitOn CHR '';'' raw))"

text \<open>
  The same with what the code adds: a segment without a \<open>:\<close> is dropped, and identifier and
  type are trimmed of surrounding white space before they are checked and emitted.
\<close>

definition segment_trimmed :: "string \<Rightarrow> IParsedRecord option" where
  "segment_trimmed seg =
     (if CHR '':'' \<notin> set seg then None
      else
        (let i = trim (takeWhile (\<lambda>c. c \<noteq> CHR '':'') seg);
             t = trim (drop (length (takeWhile (\<lambda>c. c \<noteq> CHR '':'') seg) + 1) seg)
         in if isValidGuid i \<and> t \<noteq> []
            then Some \<lparr>id' = toLowerCase (stripBraces i), table = toLowerCase t\<rparr>
            else None))"

text \<open>
  A reference of a bound string: whether the identifier is wrapped in braces, the identifier
  and the type. \<open>renderBound\<close> writes a list of references as a bound string.
\<close>

type_synonym Ref = "bool \<times> string \<times> string"

definition renderRef :: "Ref \<Rightarrow> string" where
  "renderRef r =
     (case r of (braced, i, t) \<Rightarrow> (if braced then ''{'' @ i @ ''}'' else i) @ '':'' @ t)"

definition renderBound :: "Ref list \<Rightarrow> string" where
  "renderBound refs = join '';'' (map renderRef refs)"

text \<open>
  A valid reference as the specification states it: an identifier of the 8-4-4-4-12 grammar
  and a non-empty type (which cannot hold the separator). The canonical form it is to come
  back in: identifier and type lowercased.
\<close>

definition validRef_asStated :: "Ref \<Rightarrow> bool" where
  "validRef_asStated r =
     (case r of (braced, i, t) \<Rightarrow> guidRegex i \<and> t \<noteq> [] \<and> CHR '';'' \<notin> set t)"

definition canonical_asStated :: "Ref list \<Rightarrow> string" where
  "canonical_asStated refs =
     join '';'' (map (\<lambda>(braced, i, t). toLowerCase i @ '':'' @ toLowerCase t) refs)"

text \<open>
  With what the code adds: the type is trimmed of surrounding white space, and it must not
  consist of white space only.
\<close>

definition validRef :: "Ref \<Rightarrow> bool" where
  "validRef r =
     (case r of (braced, i, t) \<Rightarrow> guidRegex i \<and> trim t \<noteq> [] \<and> CHR '';'' \<notin> set t)"

definition canonicalRecord :: "Ref \<Rightarrow> IParsedRecord" where
  "canonicalRecord r =
     (case r of (braced, i, t) \<Rightarrow> \<lparr>id' = toLowerCase i, table = toLowerCase (trim t)\<rparr>)"

definition canonical :: "Ref list \<Rightarrow> string" where
  "canonical refs =
     join '';'' (map (\<lambda>r. id' (canonicalRecord r) @ '':'' @ table (canonicalRecord r)) refs)"

text \<open>A resolution that finds every record, under the name the function \<open>nm\<close> gives it.\<close>

definition resolveSynchronously :: "(IParsedRecord \<Rightarrow> string) \<Rightarrow> IParsedRecord \<Rightarrow> ILookupRecord" where
  "resolveSynchronously nm r =
     \<lparr>id' = id' r, table = table r, name = nm r, iconUrl = None, isLoading = None\<rparr>"

text \<open>
  The resolution of a bound value: the records the store finds for its references, in the
  order of the references.
\<close>

definition resolution :: "WebAPI \<Rightarrow> string \<Rightarrow> ILookupRecord list" where
  "resolution api v =
     (case retrieveAllRecords api (parseBoundValue (Some v)) of
        Fulfilled r \<Rightarrow> validRecords r
      | Rejected e \<Rightarrow> [])"

text \<open>What one lookup contributes to a pass of \<open>retrieveAllRecords\<close> when it does not reject.\<close>

definition resolveOne :: "WebAPI \<Rightarrow> IParsedRecord \<Rightarrow> ILookupRecord option" where
  "resolveOne api p =
     (case settled (retrieveRecord api (table p) (id' p)) of
        Fulfilled r \<Rightarrow> r
      | Rejected e \<Rightarrow> None)"

section \<open>Example data\<close>

definition ex_sel :: "ILookupRecord list" where
  "ex_sel =
     [\<lparr>id' = ''{AAAAAAAA-1111-1111-1111-111111111111}'', table = ''account'', name = ''A'',
       iconUrl = None, isLoading = None\<rparr>,
      \<lparr>id' = ''bbbbbbbb-2222-2222-2222-222222222222'', table = ''contact'', name = ''B'',
       iconUrl = None, isLoading = None\<rparr>,
      \<lparr>id' = ''aaaaaaaa-1111-1111-1111-111111111111'', table = ''account'', name = ''A2'',
       iconUrl = None, isLoading = None\<rparr>]"

definition ex_ctx :: Context where
  "ex_ctx = \<lparr>boundField = None, allowMultiSelect = Some True, maxSelections = Some 2,
             lookupTables = Some ''account,contact''\<rparr>"

definition ex_state :: PseudoLookup where
  "ex_state = (init ex_ctx)\<lparr>selectedRecords := ex_sel, errorMessage := Some ''Error opening lookup dialog'',
                            isInitialized := True\<rparr>"

definition ex_results :: "LookupValue list" where
  "ex_results =
     [\<lparr>lookupId = ''{11111111-1111-1111-1111-111111111111}'', lookupName = Some ''One'',
       entityType = ''Contact''\<rparr>,
      \<lparr>lookupId = ''22222222-2222-2222-2222-222222222222'', lookupName = Some ''Two'',
       entityType = ''account''\<rparr>,
      \<lparr>lookupId = ''33333333-3333-3333-3333-333333333333'', lookupName = None,
       entityType = ''account''\<rparr>]"

text \<open>A store that knows every record, and one that fails every request with a server error.\<close>

definition ex_api :: WebAPI where
  "ex_api t i q = Fulfilled (Some [(''fullname'', ''Jane Doe''), (''name'', ''Contoso'')])"

definition ex_api500 :: WebAPI where
  "ex_api500 t i q =
     Rejected (ErrorObject (Some (NumCode 500)) None
                (Some (StringMessage ''Internal Server Error'')))"

text \<open>A bound value that names the same record twice, and the state after it has been loaded.\<close>

definition ex_dup_ctx :: Context where
  "ex_dup_ctx =
     \<lparr>boundField = Some (''11111111-1111-1111-1111-111111111111:contact;'' @
                           ''11111111-1111-1111-1111-111111111111:contact''),
      allowMultiSelect = Some True, maxSelections = None, lookupTables = Some ''contact''\<rparr>"

definition ex_dup_loaded :: PseudoLookup where
  "ex_dup_loaded =
     (let (s1, q) = updateView ex_dup_ctx (init ex_dup_ctx)
      in case q of
           Some p \<Rightarrow> fst (loadInitialData_resume p (retrieveAllRecords ex_api (parsedRecords p)) s1)
         | None \<Rightarrow> s1)"

text \<open>A state in which opening the picker has failed before, and nothing is selected.\<close>

definition ex_err_state :: PseudoLookup where
  "ex_err_state =
     (init (ex_ctx\<lparr>maxSelections := None\<rparr>))
       \<lparr>errorMessage := Some ''Error opening lookup dialog'', isInitialized := True,
        lastBoundValue := Some []\<rparr>"

definition ex_empty_state :: PseudoLookup where
  "ex_empty_state = (init ex_ctx)\<lparr>isInitialized := True, lastBoundValue := Some [], stateUpdater := True\<rparr>"

text \<open>Two references of a bound string; the first is in braces, with blanks around its type.\<close>

definition ex_refs :: "Ref list" where
  "ex_refs =
     [(True, ''AAAAAAAA-1111-1111-1111-111111111111'', '' Contact ''),
      (False, ''bbbbbbbb-2222-2222-2222-222222222222'', ''account'')]"

text \<open>
  Two external values, and a store that knows the record of the second by the name Bob, a
  third record by the name Carol and every other record by the name Alice.
\<close>

definition ex_ctxA :: Context where
  "ex_ctxA = ex_ctx\<lparr>boundField := Some ''aaaaaaaa-1111-1111-1111-111111111111:contact''\<rparr>"

definition ex_ctxB :: Context where
  "ex_ctxB = ex_ctx\<lparr>boundField := Some ''bbbbbbbb-2222-2222-2222-222222222222:contact''\<rparr>"

definition ex_store :: WebAPI where
  "ex_store t i q =
     (if i = ''bbbbbbbb-2222-2222-2222-222222222222''
      then Fulfilled (Some [(''fullname'', ''Bob'')])
      else if i = ''cccccccc-3333-3333-3333-333333333333''
      then Fulfilled (Some [(''fullname'', ''Carol'')])
      else Fulfilled (Some [(''fullname'', ''Alice'')]))"

text \<open>
  The external value changes from the first to the second while the load of the first is
  pending.
\<close>

definition ex_sysAB :: System where
  "ex_sysAB = run ex_store [Observe ex_ctxA, Observe ex_ctxB] (initial ex_ctx)"

text \<open>
  Then the load of the first completes. The user clicks the lookup button and picks a third
  record, Carol. The framework hands the control's new output back through \<open>updateView\<close>,
  and the load of the second value completes: in this order (\<open>ex_sysStuck\<close>) or in the
  other (\<open>ex_sysLost\<close>).
\<close>

definition ex_sysRestarted :: System where
  "ex_sysRestarted = step ex_store (Settle 0) ex_sysAB"

definition ex_pick :: "LookupValue list" where
  "ex_pick =
     [\<lparr>lookupId = ''{CCCCCCCC-3333-3333-3333-333333333333}'', lookupName = Some ''Carol'',
       entityType = ''contact''\<rparr>]"

definition ex_sysPicked :: System where
  "ex_sysPicked = run ex_store [Click, Picked 0 (Fulfilled ex_pick)] ex_sysRestarted"

definition ex_ctxEcho :: Context where
  "ex_ctxEcho =
     ex_ctx\<lparr>boundField := Some (''bbbbbbbb-2222-2222-2222-222222222222:contact;'' @
                                  ''cccccccc-3333-3333-3333-333333333333:contact'')\<rparr>"

definition ex_sysStuck :: System where
  "ex_sysStuck = run ex_store [Observe ex_ctxEcho, Settle 0] ex_sysPicked"

definition ex_sysLost :: System where
  "ex_sysLost = run ex_store [Settle 0, Observe ex_ctxEcho] ex_sysPicked"

text \<open>
  A third external value, observed while the load of the first is pending and replaced by the
  second after that load has completed.
\<close>

definition ex_ctxC :: Context where
  "ex_ctxC = ex_ctx\<lparr>boundField := Some ''cccccccc-3333-3333-3333-333333333333:contact''\<rparr>"

definition ex_sysTwoLoads :: System where
  "ex_sysTwoLoads =
     run ex_store [Observe ex_ctxA, Observe ex_ctxC, Settle 0, Observe ex_ctxB] (initial ex_ctx)"

text \<open>
  A bound value without any valid reference, and a control that has observed an empty value
  and whose view has registered its updater.
\<close>

definition ex_garbage_ctx :: Context where
  "ex_garbage_ctx = ex_ctx\<lparr>boundField := Some ''not-a-guid:account''\<rparr>"

definition ex_mounted :: PseudoLookup where
  "ex_mounted = setStateUpdater (fst (updateView ex_ctx (init ex_ctx)))"

text \<open>The bound value without a valid reference, observed by a fresh control and by that one.\<close>

definition ex_garbage_fresh :: PseudoLookup where
  "ex_garbage_fresh = fst (updateView ex_garbage_ctx (init ex_ctx))"

definition ex_garbage_mounted :: PseudoLookup where
  "ex_garbage_mounted = fst (updateView ex_garbage_ctx ex_mounted)"

text \<open>
  A store that knows every record but one, for which it fails with a server error, and two
  references, the second to that record.
\<close>

definition ex_api_mixed :: WebAPI where
  "ex_api_mixed t i q =
     (if i = ''22222222-2222-2222-2222-222222222222''
      then Rejected (ErrorObject (Some (NumCode 500)) None
                      (Some (StringMessage ''Internal Server Error'')))
      else Fulfilled (Some [(''name'', ''Contoso'')]))"

definition ex_two :: "IParsedRecord list" where
  "ex_two =
     [\<lparr>id' = ''11111111-1111-1111-1111-111111111111'', table = ''account''\<rparr>,
      \<lparr>id' = ''22222222-2222-2222-2222-222222222222'', table = ''account''\<rparr>]"

text \<open>A store that refuses every request with code 403 and a number as its message.\<close>

definition ex_api403 :: WebAPI where
  "ex_api403 t i q = Rejected (ErrorObject (Some (NumCode 403)) None (Some OtherMessage))"

section \<open>Basic facts\<close>

lemma normalizeGuid_eq: "normalizeGuid g = toLowerCase (stripBraces g)"
  by (simp add: normalizeGuid_def toLowerCase_def stripBraces_def)

subsection \<open>Characters\<close>

lemma of_char_lower:
  "(of_char (toLowerCaseChar c) :: nat) =
     (let n = of_char c
      in if (65 \<le> n \<and> n \<le> 90) \<or> (192 \<le> n \<and> n \<le> 222 \<and> n \<noteq> 215) then n + 32 else n)"
  by (auto simp: toLowerCaseChar_def Let_def)

lemma char_eq_nat: "(c = d) = ((of_char c :: nat) = of_char d)"
  by auto

lemma lower_idem: "toLowerCaseChar (toLowerCaseChar c) = toLowerCaseChar c"
  unfolding char_eq_nat [of "toLowerCaseChar (toLowerCaseChar c)"] of_char_lower
  by (auto simp: Let_def)

lemma lower_eq_brace:
  "(toLowerCaseChar c = CHR ''{'') = (c = CHR ''{'')"
  "(toLowerCaseChar c = CHR ''}'') = (c = CHR ''}'')"
  unfolding char_eq_nat [of _ "CHR ''{''"] char_eq_nat [of _ "CHR ''}''"] of_char_lower
  by (auto simp: Let_def)

lemma lower_eq_sep:
  "(toLowerCaseChar c = CHR '';'') = (c = CHR '';'')"
  "(toLowerCaseChar c = CHR '':'') = (c = CHR '':'')"
  "(toLowerCaseChar c = CHR ''-'') = (c = CHR ''-'')"
  unfolding char_eq_nat [of _ "CHR '';''"] char_eq_nat [of _ "CHR '':''"]
    char_eq_nat [of _ "CHR ''-''"] of_char_lower
  by (auto simp: Let_def)

lemma lower_ws: "isWhiteSpace (toLowerCaseChar c) = isWhiteSpace c"
  unfolding isWhiteSpace_def of_char_lower by (auto simp: Let_def)

lemma lower_hex: "isHexDigit c \<Longrightarrow> isHexDigit (toLowerCaseChar c)"
  unfolding isHexDigit_def of_char_lower by (auto simp: Let_def)

subsection \<open>Fields after the helpers\<close>

lemma triggerRerender_fields [simp]:
  "selectedRecords (triggerRerender s) = selectedRecords s"
  "errorMessage (triggerRerender s) = errorMessage s"
  "boundFieldValue (triggerRerender s) = boundFieldValue s"
  "recordNamesValue (triggerRerender s) = recordNamesValue s"
  "lastBoundValue (triggerRerender s) = lastBoundValue s"
  "isInitialized (triggerRerender s) = isInitialized s"
  "isLoadingInProgress (triggerRerender s) = isLoadingInProgress s"
  "context' (triggerRerender s) = context' s"
  "tableIconCache (triggerRerender s) = tableIconCache s"
  "stateVersion (triggerRerender s) = stateVersion s + 1"
  by (simp_all add: triggerRerender_def Let_def)

lemma notifyOutputChanged_fields [simp]:
  "selectedRecords (notifyOutputChanged s) = selectedRecords s"
  "errorMessage (notifyOutputChanged s) = errorMessage s"
  "boundFieldValue (notifyOutputChanged s) = boundFieldValue s"
  "recordNamesValue (notifyOutputChanged s) = recordNamesValue s"
  "lastBoundValue (notifyOutputChanged s) = lastBoundValue s"
  "isInitialized (notifyOutputChanged s) = isInitialized s"
  "isLoadingInProgress (notifyOutputChanged s) = isLoadingInProgress s"
  "context' (notifyOutputChanged s) = context' s"
  "tableIconCache (notifyOutputChanged s) = tableIconCache s"
  "stateVersion (notifyOutputChanged s) = stateVersion s"
  by (simp_all add: notifyOutputChanged_def)

subsection \<open>Plain objects\<close>

text \<open>
  The table names \<open>constructor\<close> and \<open>__proto__\<close> (in any case of letters) find members of
  \<open>Object.prototype\<close> in the table of name fields and in the icon cache.
\<close>

lemma inherited_members:
  "getPrimaryNameField ''Constructor'' = Inherited ''constructor''
   \<and> jsToString (getPrimaryNameField ''Constructor'') = ''function Object() { [native code] }''
   \<and> jsToString (getPrimaryNameField ''__proto__'') = ''[object Object]''
   \<and> getPrimaryNameField ''Contact'' = JsString ''fullname''
   \<and> getPrimaryNameField ''tostring'' = JsString ''name''
   \<and> iconFor emptyObject ''constructor'' = Some (Inherited ''constructor'')
   \<and> iconFor \<lparr>ownProperties = [(''constructor'', None)], prototypeNull = False\<rparr> ''constructor'' = None
   \<and> iconFor \<lparr>ownProperties = [], prototypeNull = True\<rparr> ''constructor'' = None
   \<and> iconFor emptyObject ''contact'' = None"
  by code_simp

section \<open>Removing a record\<close>

lemma removeRecordById_idem: "removeRecordById i (removeRecordById i rs) = removeRecordById i rs"
  by (simp add: removeRecordById_def)

lemma removeRecordById_absent: "\<not> isRecordSelected i rs \<Longrightarrow> removeRecordById i rs = rs"
  by (induction rs) (auto simp: removeRecordById_def isRecordSelected_def Let_def)

lemma handleRemoveRecord_fields:
  "selectedRecords (handleRemoveRecord i s) = removeRecordById i (selectedRecords s)"
  "boundFieldValue (handleRemoveRecord i s) =
     serializeToBoundValue (removeRecordById i (selectedRecords s))"
  "lastBoundValue (handleRemoveRecord i s) =
     Some (serializeToBoundValue (removeRecordById i (selectedRecords s)))"
  "errorMessage (handleRemoveRecord i s) = None"
  "stateVersion (handleRemoveRecord i s) = stateVersion s + 1"
  "recordNamesValue (handleRemoveRecord i s) =
     serializeRecordNames (s\<lparr>selectedRecords := removeRecordById i (selectedRecords s)\<rparr>)"
  by (simp_all add: handleRemoveRecord_def Let_def serializeRecordNames_def)

text \<open>
  C10. \<open>removeRecordById\<close> compares identifiers with braces stripped and case folded, on the
  argument and on every stored entry alike; the result is the input without the entries that
  match (however many there are), the other entries all kept and in their order.
\<close>

theorem removeRecordById_matches_normalized:
  "removeRecordById i rs =
     filter (\<lambda>r. toLowerCase (stripBraces (id' r)) \<noteq> toLowerCase (stripBraces i)) rs
   \<and> subseq (removeRecordById i rs) rs
   \<and> (\<forall>r \<in> set (removeRecordById i rs). normalizeGuid (id' r) \<noteq> normalizeGuid i)
   \<and> (\<forall>r \<in> set rs. normalizeGuid (id' r) \<noteq> normalizeGuid i \<longrightarrow>
         r \<in> set (removeRecordById i rs))"
  by (simp add: removeRecordById_def normalizeGuid_eq)

text \<open>
  An instance: two entries carry the same identifier, one of them in braces and upper case;
  both go, the third entry stays.
\<close>

theorem removeRecordById_matches_normalized_witness:
  "removeRecordById ''{aaaaaaaa-1111-1111-1111-111111111111}'' ex_sel = [ex_sel ! 1]
   \<and> ex_sel ! 1 \<in> set ex_sel
   \<and> normalizeGuid (id' (ex_sel ! 1)) \<noteq> normalizeGuid ''{aaaaaaaa-1111-1111-1111-111111111111}''
   \<and> ex_sel ! 1 \<in> set (removeRecordById ''{aaaaaaaa-1111-1111-1111-111111111111}'' ex_sel)"
proof -
  have a: "removeRecordById ''{aaaaaaaa-1111-1111-1111-111111111111}'' ex_sel = [ex_sel ! 1]"
    by code_simp
  have b: "ex_sel ! 1 \<in> set ex_sel"
    by (simp add: ex_sel_def)
  have c: "normalizeGuid (id' (ex_sel ! 1)) \<noteq> normalizeGuid ''{aaaaaaaa-1111-1111-1111-111111111111}''"
    by code_simp
  from removeRecordById_matches_normalized [of "''{aaaaaaaa-1111-1111-1111-111111111111}''" ex_sel] b c
  have "ex_sel ! 1 \<in> set (removeRecordById ''{aaaaaaaa-1111-1111-1111-111111111111}'' ex_sel)"
    by blast
  with a b c show ?thesis by blast
qed

text \<open>
  C9. \<open>handleRemoveRecord\<close> is idempotent on the selection, the serialized bound value, the
  names output, the snapshot and the error message: a second call with the same identifier
  changes none of them. The error message is empty after any call, and a call with an
  identifier that is not selected leaves the selection as it was.
\<close>

theorem removeRecord_idempotent:
  "selectedRecords (handleRemoveRecord i (handleRemoveRecord i s)) =
     selectedRecords (handleRemoveRecord i s)
   \<and> boundFieldValue (handleRemoveRecord i (handleRemoveRecord i s)) =
       boundFieldValue (handleRemoveRecord i s)
   \<and> recordNamesValue (handleRemoveRecord i (handleRemoveRecord i s)) =
       recordNamesValue (handleRemoveRecord i s)
   \<and> lastBoundValue (handleRemoveRecord i (handleRemoveRecord i s)) =
       lastBoundValue (handleRemoveRecord i s)
   \<and> errorMessage (handleRemoveRecord i (handleRemoveRecord i s)) =
       errorMessage (handleRemoveRecord i s)
   \<and> errorMessage (handleRemoveRecord i s) = None
   \<and> (\<not> isRecordSelected i (selectedRecords s) \<longrightarrow>
        selectedRecords (handleRemoveRecord i s) = selectedRecords s)"
  by (simp add: handleRemoveRecord_fields removeRecordById_idem removeRecordById_absent
      serializeRecordNames_def)

text \<open>An instance with an identifier that was never selected.\<close>

theorem removeRecord_idempotent_witness:
  "\<not> isRecordSelected ''cccccccc-3333-3333-3333-333333333333'' (selectedRecords ex_state)
   \<and> selectedRecords (handleRemoveRecord ''cccccccc-3333-3333-3333-333333333333'' ex_state) =
       selectedRecords ex_state
   \<and> errorMessage ex_state \<noteq> None
   \<and> errorMessage (handleRemoveRecord ''cccccccc-3333-3333-3333-333333333333'' ex_state) = None"
proof -
  have a: "\<not> isRecordSelected ''cccccccc-3333-3333-3333-333333333333'' (selectedRecords ex_state)"
    by code_simp
  have b: "errorMessage ex_state \<noteq> None"
    by (simp add: ex_state_def)
  from removeRecord_idempotent [of "''cccccccc-3333-3333-3333-333333333333''" ex_state] a b
  show ?thesis by blast
qed
section \<open>The version counter\<close>

text \<open>
  C7, evaluated where the code departs from it. The counter starts at 0. A bound value
  without any valid reference is observed: \<open>loadInitialData\<close> empties the selection, bumps
  the version and returns from inside its \<open>try\<close>, and the \<open>finally\<close> block bumps it once
  more, with nothing changed in between. On a fresh control the version goes from 0 to 2; on
  a control whose view is mounted, from 1 to 3, and the updater is called with 2 and with 3.
  The same holds for the completion of a stale load, here in the run where the external value
  changes while the first load is pending (\<open>ex_sysAB\<close>): that one completion
  (\<open>ex_sysRestarted\<close>) takes the version from 1 to 3.
\<close>

theorem version_bumped_twice_by_one_mutation:
  "stateVersion (init ex_ctx) = 0
   \<and> stateVersion ex_garbage_fresh = 2
   \<and> stateVersion ex_mounted = 1
   \<and> updaterCalls ex_mounted = []
   \<and> stateVersion ex_garbage_mounted = 3
   \<and> updaterCalls ex_garbage_mounted = [2, 3]
   \<and> ex_garbage_mounted =
       triggerRerender (triggerRerender
         (ex_mounted\<lparr>context' := ex_garbage_ctx, lastBoundValue := Some ''not-a-guid:account''\<rparr>))
   \<and> stateVersion (control ex_sysAB) = 1
   \<and> stateVersion (control ex_sysRestarted) = 3"
proof -
  have a: "stateVersion (init ex_ctx) = 0"
    by (simp add: init_def)
  have b: "stateVersion ex_garbage_fresh = 2"
    by code_simp
  have c: "(let s = ex_mounted in
      stateVersion s = 1 \<and> updaterCalls s = [] \<and>
      (let s' = fst (updateView ex_garbage_ctx s) in
         stateVersion s' = 3 \<and> updaterCalls s' = [2, 3] \<and>
         s' = triggerRerender (triggerRerender
                (s\<lparr>context' := ex_garbage_ctx, lastBoundValue := Some ''not-a-guid:account''\<rparr>))))"
    by code_simp
  have d: "(let S = ex_sysAB in
      stateVersion (control S) = 1 \<and> stateVersion (control (step ex_store (Settle 0) S)) = 3)"
    by code_simp
  from a b c d show ?thesis
    unfolding Let_def ex_garbage_mounted_def ex_sysRestarted_def by blast
qed

section \<open>Adding records\<close>

lemma isRecordSelected_set:
  "isRecordSelected i rs = (normalizeGuid i \<in> set (map (\<lambda>r. normalizeGuid (id' r)) rs))"
  by (induction rs) (auto simp: isRecordSelected_def Let_def)

lemma normalizeGuid_idem: "normalizeGuid (normalizeGuid g) = normalizeGuid g"
proof -
  have "filter (\<lambda>c. c \<noteq> CHR ''{'' \<and> c \<noteq> CHR ''}'') (map toLowerCaseChar xs) = map toLowerCaseChar xs"
    if "\<forall>c \<in> set xs. c \<noteq> CHR ''{'' \<and> c \<noteq> CHR ''}''" for xs
    using that by (induction xs) (auto simp: lower_eq_brace)
  then show ?thesis
    by (simp add: normalizeGuid_eq toLowerCase_def stripBraces_def lower_idem)
qed

lemma processLookupResults_multi_max:
  assumes "maxSelections (context' s) = Some m" "0 < m"
  shows "selectedRecords (processLookupResults results True s) =
           take (nat m) (appendUnique s results)"
    and "errorMessage (processLookupResults results True s) =
           (if int (length (appendUnique s results)) > m
            then Some (tooManyMessage m (int (length (appendUnique s results)) - m))
            else errorMessage s)"
  using assms
  by (simp_all add: processLookupResults_def Let_def appendUnique_def isRecordSelected_set
      normalizeGuid_idem)

lemma tooManyMessage_2_1:
  "tooManyMessage 2 1 = ''Too many selections. Only the first 2 records were retained (1 removed).''"
  by (simp add: tooManyMessage_def numberToString_def digitsOf.simps)

lemma digit_code: "k < 10 \<Longrightarrow> (of_char (''0123456789'' ! k) :: nat) = 48 + k"
proof -
  assume "k < 10"
  then have "k \<in> {0, 1, 2, 3, 4, 5, 6, 7, 8, 9}"
    by auto
  then show ?thesis
    by auto
qed

lemma digitsOf_nonempty: "digitsOf n \<noteq> []"
  by (subst digitsOf.simps) (simp add: Let_def)

lemma digitsOf_digits: "list_all isDigit (digitsOf n)"
proof (induction n rule: digitsOf.induct)
  case (1 n)
  have d: "isDigit (''0123456789'' ! (n mod 10))"
    unfolding isDigit_def using digit_code [of "n mod 10"] by simp
  show ?case
  proof (cases "n div 10 = 0")
    case True
    then show ?thesis
      using d by (subst digitsOf.simps) (simp add: Let_def)
  next
    case False
    then show ?thesis
      using d 1 by (subst digitsOf.simps) (simp add: Let_def)
  qed
qed

lemma digitsOf_value: "foldl (\<lambda>a c. 10 * a + (of_char c - 48)) 0 (digitsOf n) = n"
proof (induction n rule: digitsOf.induct)
  case (1 n)
  have d: "(of_char (''0123456789'' ! (n mod 10)) :: nat) - 48 = n mod 10"
    using digit_code [of "n mod 10"] by simp
  show ?case
  proof (cases "n div 10 = 0")
    case True
    then have "n mod 10 = n"
      by simp
    with True d show ?thesis
      by (subst digitsOf.simps) (simp add: Let_def)
  next
    case False
    with 1 have "foldl (\<lambda>a c. 10 * a + (of_char c - 48)) 0 (digitsOf (n div 10)) = n div 10"
      by simp
    with False d show ?thesis
      by (subst digitsOf.simps) (simp add: Let_def)
  qed
qed

lemma digitsOf_no_leading_zero: "0 < n \<Longrightarrow> hd (digitsOf n) \<noteq> CHR ''0''"
proof (induction n rule: digitsOf.induct)
  case (1 n)
  show ?case
  proof (cases "n div 10 = 0")
    case True
    with 1(2) have "n mod 10 = n" "n < 10"
      by simp_all
    then have "(of_char (''0123456789'' ! n) :: nat) \<noteq> of_char CHR ''0''"
      using digit_code [of n] 1(2) by simp
    then have "''0123456789'' ! n \<noteq> CHR ''0''"
      by (simp only: char_eq_nat) simp
    with True \<open>n mod 10 = n\<close> show ?thesis
      by (subst digitsOf.simps) (simp add: Let_def)
  next
    case False
    then have "0 < n div 10"
      by simp
    with 1(1) False have "hd (digitsOf (n div 10)) \<noteq> CHR ''0''"
      by simp
    with False show ?thesis
      using digitsOf_nonempty [of "n div 10"] by (subst digitsOf.simps) (simp add: Let_def)
  qed
qed

lemma digitsOf_zero: "digitsOf 0 = ''0''"
  by (simp add: digitsOf.simps)

lemma readDecimal_digitsOf: "readDecimal (digitsOf n) = Some n"
proof (cases "n = 0")
  case True
  then show ?thesis
    by (simp add: digitsOf_zero readDecimal_def isDigit_def)
next
  case False
  then show ?thesis
    using digitsOf_no_leading_zero [of n]
    by (simp add: readDecimal_def digitsOf_nonempty digitsOf_digits digitsOf_value)
qed

lemma readDecimal_numberToString: "0 \<le> i \<Longrightarrow> readDecimal (numberToString i) = Some (nat i)"
  by (simp add: numberToString_def readDecimal_digitsOf)

text \<open>
  C6. In multi-select mode with a positive maximum \<open>m\<close>, the selection after
  \<open>processLookupResults\<close> is the first \<open>m\<close> entries of the old selection followed by the
  new records that were not selected yet. When that list is longer than \<open>m\<close> the error
  message is the text \<open>Too many selections. Only the first m records were retained (n
  removed).\<close> (\<open>record was\<close> for \<open>m = 1\<close>), in which \<open>m\<close> and the number \<open>n\<close> of entries
  dropped stand as decimal numerals: read as numbers they give \<open>m\<close> and the length of the
  list less \<open>m\<close>. Otherwise nothing is dropped and the message is left alone. Three results
  added to an empty selection with \<open>m = 2\<close> leave the first two and the message that 1 was
  removed.
\<close>

theorem addRecords_truncates_to_max:
  "maxSelections (context' s) = Some m \<and> 0 < m \<longrightarrow>
     selectedRecords (processLookupResults results True s) = take (nat m) (appendUnique s results)
     \<and> (int (length (appendUnique s results)) > m \<longrightarrow>
          errorMessage (processLookupResults results True s) =
            Some (''Too many selections. Only the first '' @ numberToString m @ '' record'' @
                  (if m > 1 then ''s were'' else '' was'') @ '' retained ('' @
                  numberToString (int (length (appendUnique s results)) - m) @ '' removed).'')
          \<and> readDecimal (numberToString m) = Some (nat m)
          \<and> readDecimal (numberToString (int (length (appendUnique s results)) - m)) =
              Some (length (appendUnique s results) - nat m))
     \<and> (int (length (appendUnique s results)) \<le> m \<longrightarrow>
          selectedRecords (processLookupResults results True s) = appendUnique s results
          \<and> errorMessage (processLookupResults results True s) = errorMessage s)
     \<and> (selectedRecords s = [] \<and> m = 2 \<and> results = [a, b, c] \<longrightarrow>
          selectedRecords (processLookupResults results True s) =
            [convertResult (tableIconCache s) a, convertResult (tableIconCache s) b]
          \<and> errorMessage (processLookupResults results True s) =
            Some ''Too many selections. Only the first 2 records were retained (1 removed).'')"
proof -
  have r: "0 < m \<Longrightarrow> int (length (appendUnique s results)) > m \<Longrightarrow>
      readDecimal (numberToString m) = Some (nat m) \<and>
      readDecimal (numberToString (int (length (appendUnique s results)) - m)) =
        Some (length (appendUnique s results) - nat m)"
    using readDecimal_numberToString [of m]
      readDecimal_numberToString [of "int (length (appendUnique s results)) - m"]
    by (simp add: nat_diff_distrib')
  show ?thesis
    using processLookupResults_multi_max [of s m results] tooManyMessage_2_1 r
    by (auto simp: appendUnique_def isRecordSelected_def tooManyMessage_def)
qed

text \<open>An instance: three picker results, nothing selected, a maximum of 2.\<close>

theorem addRecords_truncates_to_max_witness:
  "maxSelections (context' ex_empty_state) = Some 2 \<and> selectedRecords ex_empty_state = []
   \<and> length ex_results = 3
   \<and> map id' (selectedRecords (processLookupResults ex_results True ex_empty_state)) =
       [''11111111-1111-1111-1111-111111111111'', ''22222222-2222-2222-2222-222222222222'']
   \<and> map name (selectedRecords (processLookupResults ex_results True ex_empty_state)) =
       [''One'', ''Two'']
   \<and> errorMessage (processLookupResults ex_results True ex_empty_state) =
       Some ''Too many selections. Only the first 2 records were retained (1 removed).''
   \<and> int (length (appendUnique ex_empty_state ex_results)) > 2
   \<and> readDecimal ''2'' = Some 2 \<and> readDecimal ''1'' = Some 1
   \<and> int (length (appendUnique ex_empty_state [ex_results ! 0])) \<le> 2
   \<and> map name (selectedRecords (processLookupResults [ex_results ! 0] True ex_empty_state)) =
       [''One'']
   \<and> errorMessage (processLookupResults [ex_results ! 0] True ex_empty_state) = None"
proof -
  have a: "maxSelections (context' ex_empty_state) = Some 2" "selectedRecords ex_empty_state = []"
    "tableIconCache ex_empty_state = emptyObject"
    by (simp_all add: ex_empty_state_def init_def ex_ctx_def)
  have b: "ex_results = [ex_results ! 0, ex_results ! 1, ex_results ! 2]"
    by (simp add: ex_results_def)
  have c: "map id' [convertResult emptyObject (ex_results ! 0), convertResult emptyObject (ex_results ! 1)] =
             [''11111111-1111-1111-1111-111111111111'', ''22222222-2222-2222-2222-222222222222'']"
    by code_simp
  have d: "map name [convertResult emptyObject (ex_results ! 0), convertResult emptyObject (ex_results ! 1)] =
             [''One'', ''Two'']"
    by code_simp
  have e: "length ex_results = 3"
    by (simp add: ex_results_def)
  have prem: "maxSelections (context' ex_empty_state) = Some 2 \<and> 0 < (2::int)"
    using a by simp
  have prem2: "selectedRecords ex_empty_state = [] \<and> (2::int) = 2 \<and>
      ex_results = [ex_results ! 0, ex_results ! 1, ex_results ! 2]"
    using a b by simp
  note t = addRecords_truncates_to_max [where s = ex_empty_state and m = 2
      and results = ex_results and a = "ex_results ! 0" and b = "ex_results ! 1"
      and c = "ex_results ! 2", THEN mp, OF prem]
  from t [THEN conjunct2, THEN conjunct2, THEN conjunct2, THEN mp, OF prem2] a(3)
  have big: "selectedRecords (processLookupResults ex_results True ex_empty_state) =
          [convertResult emptyObject (ex_results ! 0), convertResult emptyObject (ex_results ! 1)]
        \<and> errorMessage (processLookupResults ex_results True ex_empty_state) =
          Some ''Too many selections. Only the first 2 records were retained (1 removed).''"
    by simp
  have over: "int (length (appendUnique ex_empty_state ex_results)) > 2"
    by code_simp
  have len: "int (length (appendUnique ex_empty_state ex_results)) - 2 = 1"
    "length (appendUnique ex_empty_state ex_results) - nat 2 = 1"
    by code_simp+
  have num: "numberToString 2 = ''2''" "numberToString 1 = ''1''"
    by (simp_all add: numberToString_def digitsOf.simps)
  from t [THEN conjunct2, THEN conjunct1, THEN mp, OF over] len num
  have dec: "readDecimal ''2'' = Some 2 \<and> readDecimal ''1'' = Some 1"
    by simp
  have f: "int (length (appendUnique ex_empty_state [ex_results ! 0])) \<le> 2"
    using a by (simp add: appendUnique_def)
  have g: "map name (appendUnique ex_empty_state [ex_results ! 0]) = [''One'']"
    using a by (simp add: appendUnique_def isRecordSelected_def) code_simp
  have h: "errorMessage ex_empty_state = None"
    by (simp add: ex_empty_state_def init_def)
  note u = addRecords_truncates_to_max [where s = ex_empty_state and m = 2
      and results = "[ex_results ! 0]", THEN mp, OF prem]
  from u [THEN conjunct2, THEN conjunct2, THEN conjunct1, THEN mp, OF f] g h
  have "map name (selectedRecords (processLookupResults [ex_results ! 0] True ex_empty_state)) =
       [''One'']
     \<and> errorMessage (processLookupResults [ex_results ! 0] True ex_empty_state) = None"
    by simp
  with big a c d e f over dec show ?thesis by simp
qed

text \<open>
  C5, evaluated where the code departs from it. In \<open>ex_err_state\<close> an error message is
  set and nothing is selected. A record is then added with success (no maximum, so the add
  raises no error of its own): the record is selected and the old message is still there.
  \<open>handleRemoveRecord\<close>, in contrast, always clears it.
\<close>

theorem addRecords_keeps_old_error:
  "errorMessage ex_err_state = Some ''Error opening lookup dialog''
   \<and> map id' (selectedRecords (processLookupResults [ex_results ! 0] True ex_err_state)) =
       [''11111111-1111-1111-1111-111111111111'']
   \<and> errorMessage (processLookupResults [ex_results ! 0] True ex_err_state) =
       Some ''Error opening lookup dialog''
   \<and> errorMessage (processLookupResults [ex_results ! 0] False ex_err_state) =
       Some ''Error opening lookup dialog''
   \<and> errorMessage (handleRemoveRecord ''11111111-1111-1111-1111-111111111111'' ex_err_state) = None"
proof -
  have a: "errorMessage ex_err_state = Some ''Error opening lookup dialog''"
    "selectedRecords ex_err_state = []" "maxSelections (context' ex_err_state) = None"
    "tableIconCache ex_err_state = emptyObject"
    by (simp_all add: ex_err_state_def init_def ex_ctx_def)
  have b: "map id' [convertResult emptyObject (ex_results ! 0)] =
      [''11111111-1111-1111-1111-111111111111'']"
    by code_simp
  show ?thesis
    using a b by (simp add: processLookupResults_def Let_def handleRemoveRecord_fields)
qed

section \<open>The record resolver\<close>

lemma retrieveAllRecords_single:
  "settled (retrieveRecord webAPI t i) = Fulfilled None \<Longrightarrow>
   retrieveAllRecords webAPI [\<lparr>id' = i, table = t\<rparr>] =
     Fulfilled \<lparr>validRecords = [], deletedRecordIds = [i], hasDeletedRecords = True\<rparr>"
  by (simp add: retrieveAllRecords_def)

lemma partitionResults_acc:
  "partitionResults prs valid deleted =
     (valid @ List.map_filter snd prs,
      deleted @ map (\<lambda>pr. id' (fst pr)) (filter (\<lambda>pr. snd pr = None) prs))"
  by (induction prs valid deleted rule: partitionResults.induct)
     (simp_all add: List.map_filter_simps)

lemma promiseAll_map:
  "\<forall>p \<in> set ps. settled (retrieveRecord api (table p) (id' p)) = Fulfilled (resolveOne api p) \<Longrightarrow>
   promiseAll (map (\<lambda>p. settled (retrieveRecord api (table p) (id' p))) ps) =
     Fulfilled (map (resolveOne api) ps)"
  by (induction ps) simp_all

lemma map_filter_snd_zip:
  "List.map_filter snd (zip ps (map f ps)) = List.map_filter f ps"
  by (induction ps) (simp_all add: List.map_filter_simps split: option.split)

lemma deleted_zip:
  "map (\<lambda>pr. id' (fst pr)) (filter (\<lambda>pr. snd pr = None) (zip ps (map f ps))) =
     map id' (filter (\<lambda>p. f p = None) ps)"
  by (induction ps) simp_all

lemma retrieveAllRecords_pass:
  assumes "\<forall>p \<in> set ps. settled (retrieveRecord api (table p) (id' p)) = Fulfilled (resolveOne api p)"
  shows "retrieveAllRecords api ps =
     Fulfilled \<lparr>validRecords = List.map_filter (resolveOne api) ps,
                deletedRecordIds = map id' (filter (\<lambda>p. resolveOne api p = None) ps),
                hasDeletedRecords = (\<exists>p \<in> set ps. resolveOne api p = None)\<rparr>"
proof (cases "ps = []")
  case True
  then show ?thesis
    by (simp add: retrieveAllRecords_def List.map_filter_simps)
next
  case False
  have "(filter (\<lambda>p. resolveOne api p = None) ps \<noteq> []) = (\<exists>p \<in> set ps. resolveOne api p = None)"
    by (simp add: filter_empty_conv)
  with False show ?thesis
    using promiseAll_map [OF assms]
    by (simp add: retrieveAllRecords_def partitionResults_acc Let_def map_filter_snd_zip
        deleted_zip)
qed

text \<open>
  C3, as the code has it. When the store rejects the lookup, \<open>retrieveRecord\<close> does not pass
  the error on. With the code 404 or 0x80040217 (read from \<open>code\<close>, or from \<open>errorCode\<close> when
  \<open>code\<close> is null or undefined) it settles with null and logs nothing. With any other error
  whose message is missing, a string or an array, and with a thrown value that is no object,
  it settles with null as well: without a log when the code is 403 or 0x80040220 or the
  message contains \<open>does not exist\<close>, after a call of \<open>console.error\<close> otherwise. For
  \<open>retrieveAllRecords\<close> such a record counts as deleted: in a pass in which no lookup
  rejects, the valid records are those that were found, in the order of the references, and
  the identifiers of all the others are listed as deleted.
\<close>

theorem retrieveRecord_absorbs_errors:
  "(webAPI t (normalizeGuid i) (''?$select='' @ jsToString (getPrimaryNameField t)) =
      Rejected NonObject \<longrightarrow>
      settled (retrieveRecord webAPI t i) = Fulfilled None
      \<and> consoleError (retrieveRecord webAPI t i)
      \<and> retrieveAllRecords webAPI [\<lparr>id' = i, table = t\<rparr>] =
          Fulfilled \<lparr>validRecords = [], deletedRecordIds = [i], hasDeletedRecords = True\<rparr>)
   \<and> (webAPI t (normalizeGuid i) (''?$select='' @ jsToString (getPrimaryNameField t)) =
        Rejected (ErrorObject code errorCode message)
      \<and> (case code of Some c \<Rightarrow> Some c | None \<Rightarrow> errorCode) \<in>
          {Some (NumCode 404), Some (StrCode ''0x80040217'')} \<longrightarrow>
      settled (retrieveRecord webAPI t i) = Fulfilled None
      \<and> \<not> consoleError (retrieveRecord webAPI t i))
   \<and> (webAPI t (normalizeGuid i) (''?$select='' @ jsToString (getPrimaryNameField t)) =
        Rejected (ErrorObject code errorCode message)
      \<and> message \<noteq> Some OtherMessage \<longrightarrow>
      settled (retrieveRecord webAPI t i) = Fulfilled None
      \<and> consoleError (retrieveRecord webAPI t i) =
          (\<not> ((case code of Some c \<Rightarrow> Some c | None \<Rightarrow> errorCode) \<in>
                {Some (NumCode 404), Some (StrCode ''0x80040217''),
                 Some (NumCode 403), Some (StrCode ''0x80040220'')}
               \<or> (\<exists>m. message = Some (StringMessage m) \<and> sublist ''does not exist'' m)
               \<or> message = Some (ArrayMessage True)))
      \<and> retrieveAllRecords webAPI [\<lparr>id' = i, table = t\<rparr>] =
          Fulfilled \<lparr>validRecords = [], deletedRecordIds = [i], hasDeletedRecords = True\<rparr>)
   \<and> ((\<forall>p \<in> set ps. settled (retrieveRecord webAPI (table p) (id' p)) =
                         Fulfilled (resolveOne webAPI p)) \<longrightarrow>
      retrieveAllRecords webAPI ps =
        Fulfilled \<lparr>validRecords = List.map_filter (resolveOne webAPI) ps,
                   deletedRecordIds = map id' (filter (\<lambda>p. resolveOne webAPI p = None) ps),
                   hasDeletedRecords = (\<exists>p \<in> set ps. resolveOne webAPI p = None)\<rparr>)"
proof (intro conjI impI)
  assume "webAPI t (normalizeGuid i) (''?$select='' @ jsToString (getPrimaryNameField t)) =
      Rejected NonObject"
  then show a: "settled (retrieveRecord webAPI t i) = Fulfilled None"
    and "consoleError (retrieveRecord webAPI t i)"
    by (simp_all add: retrieveRecord_def Let_def isSilentError_def)
  from a show "retrieveAllRecords webAPI [\<lparr>id' = i, table = t\<rparr>] =
      Fulfilled \<lparr>validRecords = [], deletedRecordIds = [i], hasDeletedRecords = True\<rparr>"
    by (rule retrieveAllRecords_single)
next
  assume "webAPI t (normalizeGuid i) (''?$select='' @ jsToString (getPrimaryNameField t)) =
        Rejected (ErrorObject code errorCode message)
      \<and> (case code of Some c \<Rightarrow> Some c | None \<Rightarrow> errorCode) \<in>
          {Some (NumCode 404), Some (StrCode ''0x80040217'')}"
  then show "settled (retrieveRecord webAPI t i) = Fulfilled None"
    and "\<not> consoleError (retrieveRecord webAPI t i)"
    by (auto simp: retrieveRecord_def Let_def isSilentError_def)
next
  assume h: "webAPI t (normalizeGuid i) (''?$select='' @ jsToString (getPrimaryNameField t)) =
        Rejected (ErrorObject code errorCode message)
      \<and> message \<noteq> Some OtherMessage"
  then obtain b where b: "includesDoesNotExist message = Some b"
    and bb: "b = ((\<exists>m. message = Some (StringMessage m) \<and> sublist ''does not exist'' m)
               \<or> message = Some (ArrayMessage True))"
    by (cases message) (auto simp: includesDoesNotExist_def split: Message.split)
  from h b show a: "settled (retrieveRecord webAPI t i) = Fulfilled None"
    by (simp add: retrieveRecord_def Let_def isSilentError_def split: bool.split)
  from h b bb show "consoleError (retrieveRecord webAPI t i) =
          (\<not> ((case code of Some c \<Rightarrow> Some c | None \<Rightarrow> errorCode) \<in>
                {Some (NumCode 404), Some (StrCode ''0x80040217''),
                 Some (NumCode 403), Some (StrCode ''0x80040220'')}
               \<or> (\<exists>m. message = Some (StringMessage m) \<and> sublist ''does not exist'' m)
               \<or> message = Some (ArrayMessage True)))"
    by (auto simp: retrieveRecord_def Let_def isSilentError_def split: bool.split)
  from a show "retrieveAllRecords webAPI [\<lparr>id' = i, table = t\<rparr>] =
      Fulfilled \<lparr>validRecords = [], deletedRecordIds = [i], hasDeletedRecords = True\<rparr>"
    by (rule retrieveAllRecords_single)
next
  assume "\<forall>p \<in> set ps. settled (retrieveRecord webAPI (table p) (id' p)) =
      Fulfilled (resolveOne webAPI p)"
  then show "retrieveAllRecords webAPI ps =
        Fulfilled \<lparr>validRecords = List.map_filter (resolveOne webAPI) ps,
                   deletedRecordIds = map id' (filter (\<lambda>p. resolveOne webAPI p = None) ps),
                   hasDeletedRecords = (\<exists>p \<in> set ps. resolveOne webAPI p = None)\<rparr>"
    by (rule retrieveAllRecords_pass)
qed

text \<open>
  Instances: the store answers with a server error (code 500), which is logged; with the
  code 0x80040220 in \<open>errorCode\<close>, which is not; with the code 404 and a number as the
  message, which is not; and with a thrown string, which is logged. In a pass over two
  references of which the second meets a server error, the first record is valid and the
  second is listed as deleted.
\<close>

theorem retrieveRecord_absorbs_errors_witness:
  "settled (retrieveRecord ex_api500 ''account'' ''11111111-1111-1111-1111-111111111111'') =
       Fulfilled None
   \<and> consoleError (retrieveRecord ex_api500 ''account'' ''11111111-1111-1111-1111-111111111111'')
   \<and> settled (retrieveRecord (\<lambda>t i q. Rejected (ErrorObject None
         (Some (StrCode ''0x80040220'')) None)) ''account'' ''{11111111-1111-1111-1111-111111111111}'')
       = Fulfilled None
   \<and> \<not> consoleError (retrieveRecord (\<lambda>t i q. Rejected (ErrorObject None
         (Some (StrCode ''0x80040220'')) None)) ''account'' ''{11111111-1111-1111-1111-111111111111}'')
   \<and> settled (retrieveRecord (\<lambda>t i q. Rejected (ErrorObject (Some (NumCode 404)) None
         (Some OtherMessage))) ''Contact'' ''11111111-1111-1111-1111-111111111111'') = Fulfilled None
   \<and> \<not> consoleError (retrieveRecord (\<lambda>t i q. Rejected (ErrorObject (Some (NumCode 404)) None
         (Some OtherMessage))) ''Contact'' ''11111111-1111-1111-1111-111111111111'')
   \<and> settled (retrieveRecord (\<lambda>t i q. Rejected NonObject) ''account''
         ''11111111-1111-1111-1111-111111111111'') = Fulfilled None
   \<and> consoleError (retrieveRecord (\<lambda>t i q. Rejected NonObject) ''account''
         ''11111111-1111-1111-1111-111111111111'')
   \<and> retrieveAllRecords ex_api_mixed ex_two =
       Fulfilled
         \<lparr>validRecords =
            [\<lparr>id' = ''11111111-1111-1111-1111-111111111111'', table = ''account'',
              name = ''Contoso'', iconUrl = None, isLoading = None\<rparr>],
          deletedRecordIds = [''22222222-2222-2222-2222-222222222222''],
          hasDeletedRecords = True\<rparr>"
proof -
  note t = retrieveRecord_absorbs_errors
  have a: "ex_api500 ''account'' (normalizeGuid ''11111111-1111-1111-1111-111111111111'')
       (''?$select='' @ jsToString (getPrimaryNameField ''account'')) =
     Rejected (ErrorObject (Some (NumCode 500)) None (Some (StringMessage ''Internal Server Error'')))
     \<and> Some (StringMessage ''Internal Server Error'') \<noteq> Some OtherMessage"
    by (simp add: ex_api500_def)
  have a': "\<not> sublist ''does not exist'' ''Internal Server Error''"
    by code_simp
  from t [where webAPI = ex_api500, THEN conjunct2, THEN conjunct2, THEN conjunct1, THEN mp, OF a] a'
  have 1: "settled (retrieveRecord ex_api500 ''account'' ''11111111-1111-1111-1111-111111111111'') =
       Fulfilled None
     \<and> consoleError (retrieveRecord ex_api500 ''account'' ''11111111-1111-1111-1111-111111111111'')"
    by simp
  let ?f = "\<lambda>t i q. Rejected (ErrorObject None (Some (StrCode ''0x80040220'')) None)
      :: Entity option Promise"
  have b: "?f ''account'' (normalizeGuid ''{11111111-1111-1111-1111-111111111111}'')
       (''?$select='' @ jsToString (getPrimaryNameField ''account'')) =
     Rejected (ErrorObject None (Some (StrCode ''0x80040220'')) None)
     \<and> (None :: Message option) \<noteq> Some OtherMessage"
    by simp
  from t [where webAPI = ?f, THEN conjunct2, THEN conjunct2, THEN conjunct1, THEN mp, OF b]
  have 2: "settled (retrieveRecord ?f ''account'' ''{11111111-1111-1111-1111-111111111111}'') =
       Fulfilled None
     \<and> \<not> consoleError (retrieveRecord ?f ''account'' ''{11111111-1111-1111-1111-111111111111}'')"
    by simp
  let ?g = "\<lambda>t i q. Rejected (ErrorObject (Some (NumCode 404)) None (Some OtherMessage))
      :: Entity option Promise"
  have c: "?g ''Contact'' (normalizeGuid ''11111111-1111-1111-1111-111111111111'')
       (''?$select='' @ jsToString (getPrimaryNameField ''Contact'')) =
     Rejected (ErrorObject (Some (NumCode 404)) None (Some OtherMessage))
     \<and> (case Some (NumCode 404) of Some c \<Rightarrow> Some c | None \<Rightarrow> None) \<in>
          {Some (NumCode 404), Some (StrCode ''0x80040217'')}"
    by simp
  from t [where webAPI = ?g, THEN conjunct2, THEN conjunct1, THEN mp, OF c]
  have 3: "settled (retrieveRecord ?g ''Contact'' ''11111111-1111-1111-1111-111111111111'') =
       Fulfilled None
     \<and> \<not> consoleError (retrieveRecord ?g ''Contact'' ''11111111-1111-1111-1111-111111111111'')"
    by simp
  let ?h = "\<lambda>t i q. Rejected NonObject :: Entity option Promise"
  have d: "?h ''account'' (normalizeGuid ''11111111-1111-1111-1111-111111111111'')
       (''?$select='' @ jsToString (getPrimaryNameField ''account'')) = Rejected NonObject"
    by simp
  from t [where webAPI = ?h, THEN conjunct1, THEN mp, OF d]
  have 4: "settled (retrieveRecord ?h ''account'' ''11111111-1111-1111-1111-111111111111'') =
       Fulfilled None
     \<and> consoleError (retrieveRecord ?h ''account'' ''11111111-1111-1111-1111-111111111111'')"
    by simp
  have e: "\<forall>p \<in> set ex_two. settled (retrieveRecord ex_api_mixed (table p) (id' p)) =
      Fulfilled (resolveOne ex_api_mixed p)"
    by code_simp
  have f: "List.map_filter (resolveOne ex_api_mixed) ex_two =
      [\<lparr>id' = ''11111111-1111-1111-1111-111111111111'', table = ''account'',
        name = ''Contoso'', iconUrl = None, isLoading = None\<rparr>]"
    "map id' (filter (\<lambda>p. resolveOne ex_api_mixed p = None) ex_two) =
      [''22222222-2222-2222-2222-222222222222'']"
    "\<exists>p \<in> set ex_two. resolveOne ex_api_mixed p = None"
    by code_simp+
  from t [where webAPI = ex_api_mixed and ps = ex_two, THEN conjunct2, THEN conjunct2,
      THEN conjunct2, THEN mp, OF e] f
  have 5: "retrieveAllRecords ex_api_mixed ex_two =
       Fulfilled
         \<lparr>validRecords =
            [\<lparr>id' = ''11111111-1111-1111-1111-111111111111'', table = ''account'',
              name = ''Contoso'', iconUrl = None, isLoading = None\<rparr>],
          deletedRecordIds = [''22222222-2222-2222-2222-222222222222''],
          hasDeletedRecords = True\<rparr>"
    by simp
  from 1 2 3 4 5 show ?thesis
    by simp
qed

text \<open>
  C3 as it is stated fails: on a server error the lookup is not rejected towards the caller.
  \<open>retrieveRecord\<close> logs and settles with null, and \<open>retrieveAllRecords\<close> lists the
  identifier among the deleted ones.
\<close>

theorem retrieveRecord_server_error_not_propagated:
  "settled (retrieveRecord ex_api500 ''account'' ''11111111-1111-1111-1111-111111111111'') =
     Fulfilled None
   \<and> consoleError (retrieveRecord ex_api500 ''account'' ''11111111-1111-1111-1111-111111111111'')
   \<and> retrieveAllRecords ex_api500
       [\<lparr>id' = ''11111111-1111-1111-1111-111111111111'', table = ''account''\<rparr>] =
     Fulfilled \<lparr>validRecords = [], deletedRecordIds = [''11111111-1111-1111-1111-111111111111''],
                hasDeletedRecords = True\<rparr>"
  by code_simp

text \<open>
  Outside of that statement: a message that is neither missing, a string nor an array makes
  the search for \<open>does not exist\<close> throw inside the \<open>catch\<close> block, unless the code is 404
  or 0x80040217. Then \<open>retrieveRecord\<close> rejects, \<open>retrieveAllRecords\<close> rejects with it, and
  the load ends in the error state with an empty selection.
\<close>

lemma retrieveRecord_rejects_on_unsearchable_message:
  "settled (retrieveRecord ex_api403 ''account'' ''11111111-1111-1111-1111-111111111111'') =
     Rejected includesTypeError
   \<and> retrieveAllRecords ex_api403
       [\<lparr>id' = ''11111111-1111-1111-1111-111111111111'', table = ''account''\<rparr>] =
     Rejected includesTypeError
   \<and> errorMessage (control (run ex_api403 [Observe ex_ctxA, Settle 0] (initial ex_ctx))) =
       Some ''Error loading records. Please refresh.''
   \<and> selectedRecords (control (run ex_api403 [Observe ex_ctxA, Settle 0] (initial ex_ctx))) = []"
  by code_simp

section \<open>Uniqueness of identifiers\<close>

text \<open>
  C4, evaluated where the code departs from it. The bound value names the same record twice;
  the store knows the record. After \<open>updateView\<close> and the completion of the load the
  selection holds two entries that are not placeholders and carry the same identifier.
\<close>

theorem load_keeps_duplicate_identifiers:
  "map id' (selectedRecords ex_dup_loaded) =
     [''11111111-1111-1111-1111-111111111111'', ''11111111-1111-1111-1111-111111111111'']
   \<and> map isLoading (selectedRecords ex_dup_loaded) = [None, None]
   \<and> \<not> uniqueIds (selectedRecords ex_dup_loaded)
   \<and> \<not> isLoadingInProgress ex_dup_loaded"
  by code_simp

section \<open>The codec\<close>

lemma splitOn_nonempty [simp]: "splitOn c xs \<noteq> []"
  by (induction xs) (auto simp: Let_def)

lemma splitOn_no_sep: "c \<notin> set xs \<Longrightarrow> splitOn c xs = [xs]"
  by (induction xs) (auto simp: Let_def)

lemma splitOn_append: "splitOn c (a @ c # b) = splitOn c a @ splitOn c b"
proof (induction a)
  case Nil
  then show ?case by (simp add: Let_def)
next
  case (Cons x a)
  then show ?case by (cases "splitOn c a") (auto simp: Let_def)
qed

lemma splitOn_join:
  "segs \<noteq> [] \<Longrightarrow> \<forall>seg \<in> set segs. c \<notin> set seg \<Longrightarrow> splitOn c (join [c] segs) = segs"
proof (induction "[c]" segs rule: join.induct)
  case 1
  then show ?case by simp
next
  case (2 x)
  then show ?case by (simp add: splitOn_no_sep)
next
  case (3 x y ys)
  then show ?case by (simp add: splitOn_append splitOn_no_sep)
qed

lemma splitOn_segments: "seg \<in> set (splitOn c xs) \<Longrightarrow> c \<notin> set seg"
proof (induction xs arbitrary: seg)
  case Nil
  then show ?case by simp
next
  case (Cons x xs)
  then show ?case
    by (cases "splitOn c xs") (auto simp: Let_def split: if_splits)
qed

lemma dropWhile_all_iff: "(\<forall>x \<in> set (dropWhile P xs). P x) = (\<forall>x \<in> set xs. P x)"
proof
  assume a: "\<forall>x \<in> set (dropWhile P xs). P x"
  have "dropWhile P xs = []"
  proof (rule ccontr)
    assume b: "dropWhile P xs \<noteq> []"
    then have "\<not> P (hd (dropWhile P xs))" by (rule hd_dropWhile)
    moreover have "hd (dropWhile P xs) \<in> set (dropWhile P xs)" using b by simp
    ultimately show False using a by blast
  qed
  then show "\<forall>x \<in> set xs. P x" by (simp add: dropWhile_eq_Nil_conv)
next
  assume "\<forall>x \<in> set xs. P x"
  then show "\<forall>x \<in> set (dropWhile P xs). P x"
    using set_dropWhileD by fastforce
qed

lemma trim_empty_iff: "(trim s = []) = (\<forall>c \<in> set s. isWhiteSpace c)"
  by (simp add: trim_def dropWhile_eq_Nil_conv dropWhile_all_iff)

lemma trim_id: "s \<noteq> [] \<Longrightarrow> \<not> isWhiteSpace (hd s) \<Longrightarrow> \<not> isWhiteSpace (last s) \<Longrightarrow> trim s = s"
proof -
  assume a: "s \<noteq> []" "\<not> isWhiteSpace (hd s)" "\<not> isWhiteSpace (last s)"
  then have "dropWhile isWhiteSpace s = s" by (cases s) auto
  moreover have "dropWhile isWhiteSpace (rev s) = rev s"
    using a by (cases "rev s") (auto simp: last_rev[symmetric] hd_rev)
  ultimately show ?thesis by (simp add: trim_def)
qed

lemma last_dropWhile: "dropWhile P xs \<noteq> [] \<Longrightarrow> last (dropWhile P xs) = last xs"
  by (induction xs) (auto split: if_splits)

lemma trim_ends:
  assumes "trim s \<noteq> []"
  shows "\<not> isWhiteSpace (hd (trim s))" and "\<not> isWhiteSpace (last (trim s))"
proof -
  let ?d = "dropWhile isWhiteSpace s"
  let ?e = "dropWhile isWhiteSpace (rev ?d)"
  have e: "?e \<noteq> []" using assms by (simp add: trim_def)
  have d: "?d \<noteq> []"
  proof
    assume "?d = []"
    then show False using e by (metis dropWhile.simps(1) rev.simps(1))
  qed
  have "hd (trim s) = last ?e" using e by (simp add: trim_def hd_rev)
  also have "\<dots> = last (rev ?d)" using e by (rule last_dropWhile)
  also have "\<dots> = hd ?d" using d by (simp add: last_rev)
  finally show "\<not> isWhiteSpace (hd (trim s))" using hd_dropWhile [OF d] by simp
  have "last (trim s) = hd ?e" using e by (simp add: trim_def last_rev)
  then show "\<not> isWhiteSpace (last (trim s))" using hd_dropWhile [OF e] by simp
qed

lemma trim_idem: "trim (trim s) = trim s"
proof (cases "trim s = []")
  case True
  have "trim [] = []" by (simp add: trim_def)
  with True show ?thesis by simp
next
  case False
  then show ?thesis by (intro trim_id trim_ends)
qed

lemma trim_subset: "set (trim s) \<subseteq> set s"
proof -
  have "set (dropWhile isWhiteSpace (rev (dropWhile isWhiteSpace s))) \<subseteq> set (dropWhile isWhiteSpace s)"
    using set_dropWhileD by fastforce
  also have "\<dots> \<subseteq> set s" using set_dropWhileD by fastforce
  finally show ?thesis by (simp add: trim_def)
qed

lemma indexOf_nonneg: "indexOf c s \<ge> -1"
  by (induction s) (auto simp: Let_def)

lemma indexOf_none: "(indexOf c s = -1) = (c \<notin> set s)"
proof (induction s)
  case Nil
  then show ?case by simp
next
  case (Cons x s)
  then show ?case using indexOf_nonneg [of c s] by (auto simp: Let_def)
qed

lemma indexOf_takeWhile: "c \<in> set s \<Longrightarrow> indexOf c s = int (length (takeWhile (\<lambda>x. x \<noteq> c) s))"
  by (induction s) (auto simp: Let_def indexOf_none)

lemma parseEntries_segments:
  "parseEntries es acc = acc @ List.map_filter segment_trimmed es"
proof (induction es arbitrary: acc)
  case Nil
  then show ?case by (simp add: List.map_filter_simps)
next
  case (Cons e es)
  show ?case
  proof (cases "CHR '':'' \<in> set e")
    case False
    then show ?thesis
      by (simp add: Cons indexOf_none segment_trimmed_def List.map_filter_simps)
  next
    case True
    then have "indexOf CHR '':'' e \<noteq> -1" by (simp add: indexOf_none)
    with True show ?thesis
      by (simp add: Cons indexOf_takeWhile segment_trimmed_def List.map_filter_simps
          substring_def substringFrom_def Let_def normalizeGuid_eq nat_add_distrib
          takeWhile_eq_take [symmetric])
  qed
qed

lemma ws_not_colon: "isWhiteSpace c \<Longrightarrow> c \<noteq> CHR '':''"
  by (auto simp: isWhiteSpace_def)

lemma segment_trimmed_blank: "trim seg = [] \<Longrightarrow> segment_trimmed seg = None"
  using ws_not_colon by (auto simp: segment_trimmed_def trim_empty_iff)

lemma map_filter_filter_blank:
  "List.map_filter segment_trimmed (filter (\<lambda>entry. trim entry \<noteq> []) es) =
   List.map_filter segment_trimmed es"
  by (induction es) (auto simp: List.map_filter_simps segment_trimmed_blank split: option.split)

lemma map_filter_all_none: "\<forall>x \<in> set xs. f x = None \<Longrightarrow> List.map_filter f xs = []"
  by (induction xs) (auto simp: List.map_filter_simps)

lemma splitOn_subset: "seg \<in> set (splitOn c xs) \<Longrightarrow> set seg \<subseteq> set xs"
proof (induction xs arbitrary: seg)
  case Nil
  then show ?case by simp
next
  case (Cons x xs)
  show ?case
  proof (cases "splitOn c xs")
    case Nil
    then show ?thesis by simp
  next
    case (Cons a list)
    have "set a \<subseteq> set xs" by (rule Cons.IH) (simp add: Cons)
    moreover have "\<And>y. y \<in> set list \<Longrightarrow> set y \<subseteq> set xs"
      by (rule Cons.IH) (simp add: Cons)
    ultimately show ?thesis
      using Cons.prems Cons by (auto simp: Let_def split: if_splits)
  qed
qed

lemma parseBoundValue_segments:
  "parseBoundValue (Some v) = List.map_filter segment_trimmed (splitOn CHR '';'' v)"
proof (cases "trim v = []")
  case True
  have "\<forall>seg \<in> set (splitOn CHR '';'' v). segment_trimmed seg = None"
  proof
    fix seg assume "seg \<in> set (splitOn CHR '';'' v)"
    then have "set seg \<subseteq> set v" by (rule splitOn_subset)
    with True have "trim seg = []" by (auto simp: trim_empty_iff)
    then show "segment_trimmed seg = None" by (rule segment_trimmed_blank)
  qed
  then have "List.map_filter segment_trimmed (splitOn CHR '';'' v) = []"
    by (rule map_filter_all_none)
  with True show ?thesis by (simp add: parseBoundValue_def)
next
  case False
  then have "v \<noteq> []" by (auto simp: trim_def)
  with False show ?thesis
    by (simp add: parseBoundValue_def parseEntries_segments map_filter_filter_blank)
qed

lemma map_filter_append: "List.map_filter f (xs @ ys) = List.map_filter f xs @ List.map_filter f ys"
  by (simp add: List.map_filter_def)

text \<open>
  C8, as the code has it. \<open>parseBoundValue\<close> splits the string on \<open>;\<close> and turns each
  segment into at most one entry, in order and without looking at the other segments: a
  segment without \<open>:\<close> (an empty or blank one among them) gives none; otherwise the text
  before the first \<open>:\<close> and the text after it are trimmed of white space, and the
  segment gives an entry exactly when the trimmed identifier matches the grammar and the
  trimmed type is not empty: the identifier without braces and lowercased, the type
  lowercased. The empty string and null parse to the empty list, and the parse of two
  strings joined by \<open>;\<close> is the two parses one after the other, duplicates included.
\<close>

theorem parse_segments_trimmed:
  "parseBoundValue (Some raw) = List.map_filter segment_trimmed (splitOn CHR '';'' raw)
   \<and> parseBoundValue (Some []) = []
   \<and> parseBoundValue None = []
   \<and> parseBoundValue (Some (a @ '';'' @ b)) = parseBoundValue (Some a) @ parseBoundValue (Some b)"
  by (simp add: parseBoundValue_segments splitOn_append map_filter_append
      segment_trimmed_def List.map_filter_simps)
     (simp add: parseBoundValue_def)

text \<open>
  C8 as it is stated fails where white space surrounds the identifier or the type. The
  identifier of the first string below starts with a blank and fails the grammar, yet the
  entry is emitted; the type of the second one is a blank, not empty, yet the segment is
  dropped.
\<close>

theorem parse_trims_white_space:
  "parseBoundValue (Some '' 11111111-1111-1111-1111-111111111111:contact'') =
     [\<lparr>id' = ''11111111-1111-1111-1111-111111111111'', table = ''contact''\<rparr>]
   \<and> \<not> isValidGuid '' 11111111-1111-1111-1111-111111111111''
   \<and> parse_asStated '' 11111111-1111-1111-1111-111111111111:contact'' = []
   \<and> parseBoundValue (Some ''11111111-1111-1111-1111-111111111111: '') = []
   \<and> parse_asStated ''11111111-1111-1111-1111-111111111111: '' =
     [\<lparr>id' = ''11111111-1111-1111-1111-111111111111'', table = '' ''\<rparr>]"
  by code_simp

lemma hexGroups_chars:
  "hexGroups ns s \<Longrightarrow> c \<in> set s \<Longrightarrow> isHexDigit c \<or> c = CHR ''-''"
proof (induction ns s rule: hexGroups.induct)
  case (1 s)
  then show ?case by simp
next
  case (2 n s)
  then show ?case by (auto simp: list_all_iff)
next
  case (3 n m ns s)
  from "3.prems" obtain r where r: "drop n s = CHR ''-'' # r" "hexGroups (m # ns) r"
    and h: "list_all isHexDigit (take n s)"
    by (auto split: list.splits)
  have "s = take n s @ CHR ''-'' # r" using r(1) by (metis append_take_drop_id)
  then have "c \<in> set (take n s) \<or> c = CHR ''-'' \<or> c \<in> set r"
    using "3.prems"(2) by (metis Un_iff set_ConsD set_append)
  then show ?case
    using h "3.IH" r by (auto simp: list_all_iff)
qed

lemma hexGroups_lower: "hexGroups ns s \<Longrightarrow> hexGroups ns (map toLowerCaseChar s)"
proof (induction ns s rule: hexGroups.induct)
  case (1 s)
  then show ?case by simp
next
  case (2 n s)
  then show ?case by (auto simp: list_all_iff lower_hex)
next
  case (3 n m ns s)
  then show ?case
    by (auto simp: list_all_iff lower_hex take_map drop_map lower_eq_sep split: list.splits
        dest: in_set_takeD)
qed

lemma guidRegex_nonempty: "guidRegex i \<Longrightarrow> i \<noteq> []"
  by (auto simp: guidRegex_def)

lemma hex_plain:
  assumes "isHexDigit c \<or> c = CHR ''-''"
  shows "c \<noteq> CHR '';''" "c \<noteq> CHR '':''" "c \<noteq> CHR ''{''" "c \<noteq> CHR ''}''" "\<not> isWhiteSpace c"
  using assms by (auto simp: isHexDigit_def isWhiteSpace_def Let_def)

lemma guidRegex_plain:
  assumes "guidRegex i" "c \<in> set i"
  shows "c \<noteq> CHR '';''" "c \<noteq> CHR '':''" "c \<noteq> CHR ''{''" "c \<noteq> CHR ''}''" "\<not> isWhiteSpace c"
  using hex_plain [OF hexGroups_chars [OF assms [unfolded guidRegex_def]]] by blast+

lemma stripBraces_plain: "guidRegex i \<Longrightarrow> stripBraces i = i"
  using guidRegex_plain(3,4) by (auto simp: stripBraces_def filter_id_conv)

lemma toLowerCase_idem: "toLowerCase (toLowerCase s) = toLowerCase s"
  by (simp add: toLowerCase_def lower_idem)

lemma guidRegex_lower: "guidRegex i \<Longrightarrow> guidRegex (toLowerCase i)"
  unfolding guidRegex_def toLowerCase_def by (rule hexGroups_lower)

lemma takeWhile_before: "\<forall>x \<in> set w. P x \<Longrightarrow> \<not> P y \<Longrightarrow> takeWhile P (w @ y # t) = w"
  by (induction w) auto

lemma segment_trimmed_render:
  assumes "validRef r"
  shows "segment_trimmed (renderRef r) = Some (canonicalRecord r)"
proof -
  obtain b i t where r: "r = (b, i, t)" by (cases r)
  with assms have g: "guidRegex i" and t: "trim t \<noteq> []"
    by (simp_all add: validRef_def)
  define w where "w = (if b then ''{'' @ i @ ''}'' else i)"
  have seg: "renderRef r = w @ CHR '':'' # t"
    by (simp add: renderRef_def r w_def)
  have ne: "i \<noteq> []" using g by (rule guidRegex_nonempty)
  have nocolon: "\<forall>x \<in> set w. x \<noteq> CHR '':''"
    using guidRegex_plain(2) [OF g] by (auto simp: w_def)
  have tw: "takeWhile (\<lambda>c. c \<noteq> CHR '':'') (renderRef r) = w"
    unfolding seg by (rule takeWhile_before [OF nocolon]) simp
  have dr: "drop (Suc (length w)) (renderRef r) = t"
    by (simp add: seg)
  have cr: "canonicalRecord r = \<lparr>id' = toLowerCase i, table = toLowerCase (trim t)\<rparr>"
    by (simp add: canonicalRecord_def r)
  have hdw: "\<not> isWhiteSpace (hd w)"
    using guidRegex_plain(5) [OF g, of "hd i"] ne by (auto simp: w_def isWhiteSpace_def)
  have lastw: "\<not> isWhiteSpace (last w)"
    using guidRegex_plain(5) [OF g, of "last i"] ne by (auto simp: w_def isWhiteSpace_def)
  have wne: "w \<noteq> []" using ne by (simp add: w_def)
  have trw: "trim w = w" by (rule trim_id [OF wne hdw lastw])
  have sb: "stripBraces w = i"
    using stripBraces_plain [OF g] by (auto simp: w_def stripBraces_def)
  have valid: "isValidGuid w"
    using wne g by (simp add: isValidGuid_def sb)
  have "CHR '':'' \<in> set (renderRef r)" by (simp add: seg)
  then show ?thesis
    unfolding segment_trimmed_def cr by (simp add: tw dr trw valid t sb)
qed

lemma renderRef_no_semicolon: "validRef r \<Longrightarrow> CHR '';'' \<notin> set (renderRef r)"
  using guidRegex_plain(1) by (auto simp: validRef_def renderRef_def split: prod.splits)

lemma map_filter_all_some:
  "\<forall>x \<in> set xs. f (h x) = Some (g x) \<Longrightarrow> List.map_filter f (map h xs) = map g xs"
  by (induction xs) (auto simp: List.map_filter_simps)

lemma serializeToBoundValue_map:
  "serializeToBoundValue rs =
     join '';'' (map (\<lambda>record. normalizeGuid (id' record) @ '':'' @ toLowerCase (table record)) rs)"
  by (cases rs) (simp_all add: serializeToBoundValue_def)

lemma parse_renderBound:
  assumes "list_all validRef refs"
  shows "parseBoundValue (Some (renderBound refs)) = map canonicalRecord refs"
proof (cases "refs = []")
  case True
  then show ?thesis by (simp add: renderBound_def parseBoundValue_def)
next
  case False
  have "splitOn CHR '';'' (renderBound refs) = map renderRef refs"
    unfolding renderBound_def
    using False assms by (intro splitOn_join) (auto simp: list_all_iff renderRef_no_semicolon)
  moreover have "List.map_filter segment_trimmed (map renderRef refs) = map canonicalRecord refs"
    using assms
    by (intro map_filter_all_some) (auto simp: list_all_iff segment_trimmed_render)
  ultimately show ?thesis by (simp add: parseBoundValue_segments)
qed

lemma canonicalRecord_normal:
  assumes "validRef r"
  shows "normalizeGuid (id' (canonicalRecord r)) = id' (canonicalRecord r)"
    and "toLowerCase (table (canonicalRecord r)) = table (canonicalRecord r)"
proof -
  obtain b i t where r: "r = (b, i, t)" by (cases r)
  with assms have g: "guidRegex i" by (simp add: validRef_def)
  show "normalizeGuid (id' (canonicalRecord r)) = id' (canonicalRecord r)"
    using stripBraces_plain [OF guidRegex_lower [OF g]]
    by (simp add: r canonicalRecord_def normalizeGuid_eq toLowerCase_idem)
  show "toLowerCase (table (canonicalRecord r)) = table (canonicalRecord r)"
    by (simp add: r canonicalRecord_def toLowerCase_idem)
qed

text \<open>
  C2, as the code has it. For every bound string whose segments each consist of an identifier
  of the grammar (in braces or not), a \<open>:\<close> and a type that is not blank, parsing gives
  one entry per segment, in order, and serializing the resolved entries gives the canonical
  string: every identifier lowercased and without braces, every type lowercased and trimmed
  of surrounding white space.
\<close>

theorem roundtrip_canonical:
  "list_all validRef refs \<longrightarrow>
     parseBoundValue (Some (renderBound refs)) = map canonicalRecord refs
     \<and> serializeToBoundValue (map (resolveSynchronously nm) (parseBoundValue (Some (renderBound refs))))
         = canonical refs"
proof
  assume a: "list_all validRef refs"
  have p: "parseBoundValue (Some (renderBound refs)) = map canonicalRecord refs"
    using a by (rule parse_renderBound)
  have m: "map (\<lambda>record. normalizeGuid (id' record) @ '':'' @ toLowerCase (table record))
          (map (resolveSynchronously nm) (map canonicalRecord refs)) =
        map (\<lambda>r. id' (canonicalRecord r) @ '':'' @ table (canonicalRecord r)) refs"
    using a by (auto simp: list_all_iff resolveSynchronously_def canonicalRecord_normal)
  have "serializeToBoundValue (map (resolveSynchronously nm) (map canonicalRecord refs)) =
      canonical refs"
    by (simp only: serializeToBoundValue_map m canonical_def)
  with p show "parseBoundValue (Some (renderBound refs)) = map canonicalRecord refs
     \<and> serializeToBoundValue (map (resolveSynchronously nm) (parseBoundValue (Some (renderBound refs))))
         = canonical refs"
    by simp
qed

text \<open>An instance, with braces, upper case and blanks around a type.\<close>

theorem roundtrip_canonical_witness:
  "list_all validRef ex_refs
   \<and> renderBound ex_refs =
       ''{AAAAAAAA-1111-1111-1111-111111111111}: Contact ;bbbbbbbb-2222-2222-2222-222222222222:account''
   \<and> serializeToBoundValue (map (resolveSynchronously (\<lambda>r. ''Jane Doe''))
         (parseBoundValue (Some (renderBound ex_refs)))) =
       ''aaaaaaaa-1111-1111-1111-111111111111:contact;bbbbbbbb-2222-2222-2222-222222222222:account''"
proof -
  have a: "list_all validRef ex_refs"
    by code_simp
  have b: "renderBound ex_refs =
       ''{AAAAAAAA-1111-1111-1111-111111111111}: Contact ;bbbbbbbb-2222-2222-2222-222222222222:account''"
    by code_simp
  have c: "canonical ex_refs =
       ''aaaaaaaa-1111-1111-1111-111111111111:contact;bbbbbbbb-2222-2222-2222-222222222222:account''"
    by code_simp
  from roundtrip_canonical [where refs = ex_refs and nm = "\<lambda>r. ''Jane Doe''", THEN mp, OF a]
  have "serializeToBoundValue (map (resolveSynchronously (\<lambda>r. ''Jane Doe''))
         (parseBoundValue (Some (renderBound ex_refs)))) = canonical ex_refs"
    by (rule conjunct2)
  with a b c show ?thesis by simp
qed

text \<open>
  C2 as it is stated fails on a type with surrounding white space: the references below are
  valid as stated (grammar-valid identifiers, non-empty types), but the type of the first
  comes back trimmed, not only lowercased.
\<close>

theorem roundtrip_trims_type:
  "list_all validRef_asStated ex_refs
   \<and> serializeToBoundValue (map (resolveSynchronously (\<lambda>r. ''Jane Doe''))
         (parseBoundValue (Some (renderBound ex_refs)))) =
       ''aaaaaaaa-1111-1111-1111-111111111111:contact;bbbbbbbb-2222-2222-2222-222222222222:account''
   \<and> canonical_asStated ex_refs =
       ''aaaaaaaa-1111-1111-1111-111111111111: contact ;bbbbbbbb-2222-2222-2222-222222222222:account''"
  by code_simp


section \<open>Reconciliation under external changes\<close>

text \<open>
  C1, evaluated where the code departs from it. The external value changes from the first
  record to the second while the load of the first is pending. When that load completes it
  is found stale and restarts the load against the second value; but the restart happens
  inside the \<open>try\<close>, so the \<open>finally\<close> block of the stale call runs after it and clears
  \<open>isLoadingInProgress\<close> while the restarted load is pending. The guard of
  \<open>handleLookupClick\<close> therefore lets a click through: the user picks Carol, the selection
  becomes the placeholder of the second record followed by Carol, and that is written out.

  The framework hands the written value back; it equals the snapshot, so no load starts. The
  restarted load then completes, is found stale against the value the control wrote itself,
  and its restart is skipped. Nothing is pending any more, and the selection is still the
  placeholder and Carol, while the resolution of the external value is Bob and Carol. When
  the restarted load completes before the written value comes back, its results replace the
  selection, and the selection ends as Bob alone under the same external value.

  In a run with external changes only, the cleared flag lets a second load start while one
  is pending; the completion of the first of the two is stale and restarts nothing.
\<close>

theorem stale_restart_clears_busy_pick_leaves_placeholder:
  "map loadingValue (inflight ex_sysAB) = [''aaaaaaaa-1111-1111-1111-111111111111:contact'']
   \<and> boundFieldRaw (context' (control ex_sysAB)) = ''bbbbbbbb-2222-2222-2222-222222222222:contact''
   \<and> map loadingValue (inflight ex_sysRestarted) = [''bbbbbbbb-2222-2222-2222-222222222222:contact'']
   \<and> \<not> isLoadingInProgress (control ex_sysRestarted)
   \<and> dialogs (step ex_store Click ex_sysRestarted) = [True]
   \<and> map name (selectedRecords (control ex_sysPicked)) = [''Loading...'', ''Carol'']
   \<and> boundFieldValue (control ex_sysPicked) = boundFieldRaw ex_ctxEcho
   \<and> lastBoundValue (control ex_sysPicked) = Some (boundFieldRaw ex_ctxEcho)
   \<and> map loadingValue (inflight ex_sysPicked) = [''bbbbbbbb-2222-2222-2222-222222222222:contact'']
   \<and> inflight ex_sysStuck = []
   \<and> dialogs ex_sysStuck = []
   \<and> \<not> isLoadingInProgress (control ex_sysStuck)
   \<and> boundFieldRaw (context' (control ex_sysStuck)) = boundFieldRaw ex_ctxEcho
   \<and> map name (selectedRecords (control ex_sysStuck)) = [''Loading...'', ''Carol'']
   \<and> map isLoading (selectedRecords (control ex_sysStuck)) = [Some True, None]
   \<and> map name (resolution ex_store (boundFieldRaw ex_ctxEcho)) = [''Bob'', ''Carol'']
   \<and> inflight ex_sysLost = []
   \<and> dialogs ex_sysLost = []
   \<and> boundFieldRaw (context' (control ex_sysLost)) = boundFieldRaw ex_ctxEcho
   \<and> map name (selectedRecords (control ex_sysLost)) = [''Bob'']
   \<and> map loadingValue (inflight ex_sysTwoLoads) =
       [''cccccccc-3333-3333-3333-333333333333:contact'',
        ''bbbbbbbb-2222-2222-2222-222222222222:contact'']
   \<and> boundFieldRaw (context' (control ex_sysTwoLoads)) \<noteq>
       loadingValue (inflight ex_sysTwoLoads ! 0)
   \<and> map loadingValue (inflight (step ex_store (Settle 0) ex_sysTwoLoads)) =
       [''bbbbbbbb-2222-2222-2222-222222222222:contact'']"
proof -
  have ab: "(let S = ex_sysAB in
      map loadingValue (inflight S) = [''aaaaaaaa-1111-1111-1111-111111111111:contact''] \<and>
      boundFieldRaw (context' (control S)) = ''bbbbbbbb-2222-2222-2222-222222222222:contact'')"
    by code_simp
  have re: "(let S = ex_sysRestarted in
      map loadingValue (inflight S) = [''bbbbbbbb-2222-2222-2222-222222222222:contact''] \<and>
      \<not> isLoadingInProgress (control S) \<and>
      dialogs (step ex_store Click S) = [True])"
    by code_simp
  have pi: "(let S = ex_sysPicked in
      map name (selectedRecords (control S)) = [''Loading...'', ''Carol''] \<and>
      boundFieldValue (control S) = boundFieldRaw ex_ctxEcho \<and>
      lastBoundValue (control S) = Some (boundFieldRaw ex_ctxEcho) \<and>
      map loadingValue (inflight S) = [''bbbbbbbb-2222-2222-2222-222222222222:contact''])"
    by code_simp
  have st: "(let S = ex_sysStuck in
      inflight S = [] \<and> dialogs S = [] \<and> \<not> isLoadingInProgress (control S) \<and>
      boundFieldRaw (context' (control S)) = boundFieldRaw ex_ctxEcho \<and>
      map name (selectedRecords (control S)) = [''Loading...'', ''Carol''] \<and>
      map isLoading (selectedRecords (control S)) = [Some True, None])"
    by code_simp
  have rs: "map name (resolution ex_store (boundFieldRaw ex_ctxEcho)) = [''Bob'', ''Carol'']"
    by code_simp
  have lo: "(let S = ex_sysLost in
      inflight S = [] \<and> dialogs S = [] \<and>
      boundFieldRaw (context' (control S)) = boundFieldRaw ex_ctxEcho \<and>
      map name (selectedRecords (control S)) = [''Bob''])"
    by code_simp
  have tw: "(let S = ex_sysTwoLoads in
      map loadingValue (inflight S) =
        [''cccccccc-3333-3333-3333-333333333333:contact'',
         ''bbbbbbbb-2222-2222-2222-222222222222:contact''] \<and>
      boundFieldRaw (context' (control S)) \<noteq> loadingValue (inflight S ! 0) \<and>
      map loadingValue (inflight (step ex_store (Settle 0) S)) =
        [''bbbbbbbb-2222-2222-2222-222222222222:contact''])"
    by code_simp
  from ab re pi st rs lo tw show ?thesis
    unfolding Let_def by blast
qed

end
